theory Spec2Isabelle
  imports Main "HOL-Library.AList"
begin

section \<open>Errors and Python string helpers\<close>

text \<open>
  Every exception of \<^verbatim>\<open>env_batch.py\<close> is a value. \<open>Expect msg\<close> is a failed
  \<^verbatim>\<open>expect(cond, msg)\<close> of \<^verbatim>\<open>CIME.utils\<close> (fatal); the other constructors are the
  Python exceptions the modelled paths can raise.
\<close>

datatype error =
    Expect string
  | ValueError
  | TypeError
  | AttributeError
  | UnboundLocalError
  | CommandFailed string
  | RegexError
  | JobRaised string
  | External string

text \<open>
  Strings are ASCII. \<open>py_isspace\<close> is the whitespace of \<^verbatim>\<open>str.strip()\<close> and
  \<^verbatim>\<open>str.split()\<close> on ASCII text: TAB, LF, VT, FF, CR, the separators 28 to 31, and the
  space.
\<close>

definition py_isspace :: "char \<Rightarrow> bool" where
  "py_isspace c = (let n = (of_char c :: nat) in (9 \<le> n \<and> n \<le> 13) \<or> (28 \<le> n \<and> n \<le> 32))"

definition py_strip :: "string \<Rightarrow> string" where
  "py_strip s = rev (dropWhile py_isspace (rev (dropWhile py_isspace s)))"

definition is_digit :: "char \<Rightarrow> bool" where
  "is_digit c = (let n = (of_char c :: nat) in 48 \<le> n \<and> n \<le> 57)"

fun valid_int_body :: "string \<Rightarrow> bool" where
  "valid_int_body [] = False"
| "valid_int_body [c] = is_digit c"
| "valid_int_body (c # d # cs) =
     (is_digit c \<and> (if d = CHR ''_'' then valid_int_body cs else valid_int_body (d # cs)))"

definition digits_value :: "string \<Rightarrow> nat" where
  "digits_value ds = foldl (\<lambda>acc c. 10 * acc + ((of_char c :: nat) - 48)) 0 ds"

text \<open>
  \<open>py_int\<close> is Python 3's \<^verbatim>\<open>int(s)\<close> on an ASCII string: surrounding whitespace is
  dropped, one sign is allowed, and the digits may be grouped by single underscores.
  \<open>None\<close> is the \<^verbatim>\<open>ValueError\<close>.
\<close>

definition py_int :: "string \<Rightarrow> int option" where
  "py_int s =
     (let t = py_strip s;
          neg = (case t of [] \<Rightarrow> False | c # _ \<Rightarrow> c = CHR ''-'');
          body = (case t of [] \<Rightarrow> []
                  | c # r \<Rightarrow> if c = CHR ''-'' \<or> c = CHR ''+'' then r else t)
      in if valid_int_body body
         then Some ((if neg then - 1 else 1) * int (digits_value (filter is_digit body)))
         else None)"

section \<open>The queue catalog of env\_batch.xml\<close>

text \<open>
  A \<^verbatim>\<open><queue>\<close> element: its text (the queue name) and its XML attributes, as
  strings. \<^verbatim>\<open>self.text(node)\<close> is \<open>q_text\<close>, \<^verbatim>\<open>self.get(node, a)\<close> is \<open>get_attr\<close>.
  A \<^verbatim>\<open><queues>\<close> element is the list of its \<^verbatim>\<open><queue>\<close> children, a
  \<^verbatim>\<open><batch_system>\<close> element the list of its \<^verbatim>\<open><queues>\<close> children, both in document
  order.
\<close>

record queue_node =
  q_text :: string
  q_attrib :: "(string \<times> string) list"

type_synonym queues_node = "queue_node list"

type_synonym batch_system_node = "queues_node list"

definition get_attr :: "queue_node \<Rightarrow> string \<Rightarrow> string option" where
  "get_attr node name = map_of (q_attrib node) name"

text \<open>
  Modelled from the spec: \<^verbatim>\<open>get_optional_child\<close> belongs to the XML base class, which
  is not under src/. The spec's catalog takes the "first queue flagged default=true, or
  first declared if none flagged", so the helper yields the first of the matching
  children and \<open>None\<close> when there is none. Its argument is the list of matching children
  (what \<^verbatim>\<open>get_children\<close> with the same name and attributes returns).
\<close>

definition get_optional_child :: "'a list \<Rightarrow> 'a option" where
  "get_optional_child matches = (case matches of [] \<Rightarrow> None | n # _ \<Rightarrow> Some n)"

text \<open>\<^verbatim>\<open>get_all_queues\<close>: the queues of the first \<^verbatim>\<open><queues>\<close> child of every batch system.\<close>

definition get_all_queues :: "batch_system_node list \<Rightarrow> queue_node list" where
  "get_all_queues bs_nodes =
     concat (map (\<lambda>bsnode. case get_optional_child bsnode of
                               None \<Rightarrow> []
                             | Some qnode \<Rightarrow> qnode) bs_nodes)"

text \<open>
  \<^verbatim>\<open>get_default_queue\<close>: \<open>node\<close> is overwritten for every \<^verbatim>\<open><queues>\<close> element of every
  batch system, by its queue with \<^verbatim>\<open>default="true"\<close> or else by its first queue (or
  \<open>None\<close>); what the last element gave is returned, and \<open>None\<close> is fatal.
\<close>

definition default_of_qnode :: "queues_node \<Rightarrow> queue_node option" where
  "default_of_qnode qnode =
     (case get_optional_child (filter (\<lambda>n. get_attr n ''default'' = Some ''true'') qnode) of
        Some n \<Rightarrow> Some n
      | None \<Rightarrow> get_optional_child qnode)"

definition get_default_queue :: "batch_system_node list \<Rightarrow> error + queue_node" where
  "get_default_queue bs_nodes =
     (case foldl (\<lambda>node qnode. default_of_qnode qnode) None (concat bs_nodes) of
        None \<Rightarrow> Inl (Expect ''No queues found'')
      | Some node \<Rightarrow> Inr node)"

text \<open>
  The tuple \<^verbatim>\<open>(nodemin, nodemax, jobname, walltimemax, jobmin, jobmax, is_strict)\<close> that
  \<^verbatim>\<open>get_queue_specs\<close> returns.
\<close>

type_synonym queue_specs =
  "int option \<times> int option \<times> string option \<times> string option \<times> int option \<times> int option \<times> bool"

text \<open>\<^verbatim>\<open>None if x is None else int(x)\<close>; the outer sum carries the \<^verbatim>\<open>ValueError\<close>.\<close>

definition int_attr :: "queue_node \<Rightarrow> string \<Rightarrow> error + int option" where
  "int_attr node name =
     (case get_attr node name of
        None \<Rightarrow> Inr None
      | Some s \<Rightarrow> (case py_int s of None \<Rightarrow> Inl ValueError | Some i \<Rightarrow> Inr (Some i)))"

definition specs_of_node :: "queue_node \<Rightarrow> error + queue_specs" where
  "specs_of_node node =
     (case int_attr node ''nodemin'' of Inl e \<Rightarrow> Inl e | Inr nodemin \<Rightarrow>
     (case int_attr node ''nodemax'' of Inl e \<Rightarrow> Inl e | Inr nodemax \<Rightarrow>
     (case int_attr node ''jobmin'' of Inl e \<Rightarrow> Inl e | Inr jobmin \<Rightarrow>
     (case int_attr node ''jobmax'' of Inl e \<Rightarrow> Inl e | Inr jobmax \<Rightarrow>
        (if \<not> (nodemin = None \<or> jobmin = None)
         then Inl (Expect ''Cannot specify both nodemin and jobmin for a queue'')
         else if \<not> (nodemax = None \<or> jobmax = None)
         then Inl (Expect ''Cannot specify both nodemax and jobmax for a queue'')
         else Inr (nodemin, nodemax, get_attr node ''jobname'', get_attr node ''walltimemax'',
                   jobmin, jobmax, (get_attr node ''strict'' = Some ''true'')))))))"

fun find_queue_specs :: "queue_node list \<Rightarrow> string \<Rightarrow> error + queue_specs option" where
  "find_queue_specs [] queue = Inr None"
| "find_queue_specs (node # nodes) queue =
     (if q_text node = queue
      then (case specs_of_node node of Inl e \<Rightarrow> Inl e | Inr specs \<Rightarrow> Inr (Some specs))
      else find_queue_specs nodes queue)"

definition get_queue_specs :: "batch_system_node list \<Rightarrow> string \<Rightarrow> error + queue_specs option" where
  "get_queue_specs bs_nodes queue = find_queue_specs (get_all_queues bs_nodes) queue"

text \<open>
  \<^verbatim>\<open>queue_meets_spec\<close>. \<^verbatim>\<open>convert_to_seconds\<close> of \<^verbatim>\<open>CIME.utils\<close> is not under src/: it
  is the parameter \<open>cts\<close>, which may raise.
\<close>

definition queue_meets_spec ::
  "(string \<Rightarrow> error + int) \<Rightarrow> batch_system_node list \<Rightarrow> string \<Rightarrow> int \<Rightarrow> int \<Rightarrow>
   string option \<Rightarrow> string option \<Rightarrow> error + bool" where
  "queue_meets_spec cts bs_nodes queue num_nodes num_tasks walltime job =
     (case get_queue_specs bs_nodes queue of
        Inl e \<Rightarrow> Inl e
      | Inr None \<Rightarrow> Inr True
      | Inr (Some (nodemin, nodemax, jobname, walltimemax, jobmin, jobmax, strict)) \<Rightarrow>
          if job \<noteq> None \<and> jobname \<noteq> None then Inr (jobname = job)
          else if (nodemin \<noteq> None \<and> num_nodes < the nodemin) \<or>
                  (nodemax \<noteq> None \<and> num_nodes > the nodemax) \<or>
                  (jobmin \<noteq> None \<and> num_tasks < the jobmin) \<or>
                  (jobmax \<noteq> None \<and> num_tasks > the jobmax)
          then Inr False
          else if walltime \<noteq> None \<and> walltimemax \<noteq> None \<and> strict
          then (case cts (the walltime) of
                  Inl e \<Rightarrow> Inl e
                | Inr walltime_s \<Rightarrow>
                    (case cts (the walltimemax) of
                       Inl e \<Rightarrow> Inl e
                     | Inr walltimemax_s \<Rightarrow>
                         if walltime_s > walltimemax_s then Inr False else Inr True))
          else Inr True)"

text \<open>\<^verbatim>\<open>_get_all_queue_names\<close>: the default queue's name, then every queue's name.\<close>

definition get_all_queue_names :: "batch_system_node list \<Rightarrow> error + string list" where
  "get_all_queue_names bs_nodes =
     (case get_default_queue bs_nodes of
        Inl e \<Rightarrow> Inl e
      | Inr d \<Rightarrow> Inr (map q_text (d # get_all_queues bs_nodes)))"

fun first_meeting ::
  "(string \<Rightarrow> error + bool) \<Rightarrow> string list \<Rightarrow> error + string option" where
  "first_meeting meets [] = Inr None"
| "first_meeting meets (qname # qnames) =
     (case meets qname of
        Inl e \<Rightarrow> Inl e
      | Inr True \<Rightarrow> Inr (Some qname)
      | Inr False \<Rightarrow> first_meeting meets qnames)"

definition select_best_queue ::
  "(string \<Rightarrow> error + int) \<Rightarrow> batch_system_node list \<Rightarrow> int \<Rightarrow> int \<Rightarrow>
   string option \<Rightarrow> string option \<Rightarrow> error + string option" where
  "select_best_queue cts bs_nodes num_nodes num_tasks walltime job =
     (case get_all_queue_names bs_nodes of
        Inl e \<Rightarrow> Inl e
      | Inr qnames \<Rightarrow>
          first_meeting (\<lambda>qname. queue_meets_spec cts bs_nodes qname num_nodes num_tasks walltime job)
            qnames)"

section \<open>More Python string operations\<close>

text \<open>\<^verbatim>\<open>s.split()\<close>: the maximal runs of characters that are not whitespace.\<close>

fun py_split :: "string \<Rightarrow> string list" where
  "py_split [] = []"
| "py_split (c # cs) =
     (if py_isspace c then py_split cs
      else (case cs of
              [] \<Rightarrow> [[c]]
            | d # ds \<Rightarrow>
                if py_isspace d then [c] # py_split ds
                else (case py_split cs of [] \<Rightarrow> [[c]] | w # ws \<Rightarrow> (c # w) # ws)))"

text \<open>\<^verbatim>\<open>s.split(sep)\<close> for a separator of one character.\<close>

fun py_split_on :: "char \<Rightarrow> string \<Rightarrow> string list" where
  "py_split_on sep [] = [[]]"
| "py_split_on sep (c # cs) =
     (if c = sep then [] # py_split_on sep cs
      else (case py_split_on sep cs of [] \<Rightarrow> [[c]] | w # ws \<Rightarrow> (c # w) # ws))"

text \<open>\<^verbatim>\<open>sep.join(xs)\<close>.\<close>

fun py_join :: "string \<Rightarrow> string list \<Rightarrow> string" where
  "py_join sep [] = []"
| "py_join sep [x] = x"
| "py_join sep (x # y # ys) = x @ sep @ py_join sep (y # ys)"

text \<open>\<^verbatim>\<open>sub in s\<close>.\<close>

fun py_contains :: "string \<Rightarrow> string \<Rightarrow> bool" where
  "py_contains sub [] = (sub = [])"
| "py_contains sub (c # cs) = (take (length sub) (c # cs) = sub \<or> py_contains sub cs)"

text \<open>
  \<^verbatim>\<open>s.replace(old, new)\<close> for a non-empty \<open>old\<close>: the occurrences are replaced from the
  left and do not overlap. The counter of \<open>replace_from\<close> is the number of characters of
  a replaced occurrence still to be skipped.
\<close>

fun replace_from :: "string \<Rightarrow> string \<Rightarrow> nat \<Rightarrow> string \<Rightarrow> string" where
  "replace_from old new k [] = []"
| "replace_from old new (Suc k) (c # cs) = replace_from old new k cs"
| "replace_from old new 0 (c # cs) =
     (if take (length old) (c # cs) = old
      then new @ replace_from old new (length old - 1) cs
      else c # replace_from old new 0 cs)"

definition py_replace :: "string \<Rightarrow> string \<Rightarrow> string \<Rightarrow> string" where
  "py_replace s old new = replace_from old new 0 s"

text \<open>\<^verbatim>\<open>str(n)\<close> for a list index \<open>n\<close>.\<close>

function py_str :: "nat \<Rightarrow> string" where
  "py_str n =
     (if n < 10 then [char_of (48 + n)]
      else py_str (n div 10) @ [char_of (48 + n mod 10)])"
  by pat_completeness auto
termination
  by (relation "measure id") auto

declare py_str.simps [simp del]

text \<open>\<^verbatim>\<open>xs.index(x)\<close>; \<open>None\<close> is the \<^verbatim>\<open>ValueError\<close>.\<close>

fun py_index :: "'a list \<Rightarrow> 'a \<Rightarrow> nat option" where
  "py_index [] x = None"
| "py_index (y # ys) x =
     (if y = x then Some 0 else (case py_index ys x of None \<Rightarrow> None | Some i \<Rightarrow> Some (Suc i)))"

text \<open>\<^verbatim>\<open>"{}".format(v)\<close> of a value that may be \<^verbatim>\<open>None\<close>.\<close>

definition fmt :: "string option \<Rightarrow> string" where
  "fmt v = (case v of None \<Rightarrow> ''None'' | Some s \<Rightarrow> s)"

section \<open>The batch configuration and its collaborators\<close>

text \<open>
  What \<^verbatim>\<open>submit_jobs\<close>, \<^verbatim>\<open>_submit_single_job\<close> and \<^verbatim>\<open>cancel_job\<close> read of the object and of
  the world. The XML store, the case object, the command runner, the regular expression
  engine and \<^verbatim>\<open>CIME.utils\<close> are not under src/; each is a field:
  \<^item> \<open>batchtype\<close>: \<^verbatim>\<open>self._batchtype\<close>;
  \<^item> \<open>get_jobs\<close>: the result of \<^verbatim>\<open>self.get_jobs()\<close>;
  \<^item> \<open>get_value item subgroup\<close>: \<^verbatim>\<open>self.get_value(item, subgroup=subgroup)\<close>, resolved;
  \<^item> \<open>get_value_unresolved\<close>: the same with \<^verbatim>\<open>resolved=False\<close>;
  \<^item> \<open>batch_cancel_nodes\<close>: the texts of the \<^verbatim>\<open><batch_cancel>\<close> children;
  \<^item> \<open>eval_resolved p\<close>: the truth value of \<^verbatim>\<open>eval(case.get_resolved_value(p))\<close>, \<open>None\<close>
    when either raises;
  \<^item> \<open>get_submit_args job\<close>: \<^verbatim>\<open>self.get_submit_args(case, job)\<close>, which evaluates
    configuration text and may raise;
  \<^item> \<open>cime_config section option\<close>: \<^verbatim>\<open>get_cime_config()\<close>; \<open>None\<close> when
    \<^verbatim>\<open>has_option\<close> is false;
  \<^item> \<open>get_batch_script_for_job\<close>: the function of \<^verbatim>\<open>CIME.utils\<close>;
  \<^item> \<open>case_function name kwargs\<close>: the call \<^verbatim>\<open>getattr(case, name)(**kwargs)\<close>; \<open>Some e\<close>
    when it raises;
  \<^item> \<open>run_cmd_no_fail cmd\<close>: the output of the command, or the fatal error of a nonzero
    exit;
  \<^item> \<open>re_search_group1 pattern output\<close>: \<^verbatim>\<open>re.search(pattern, output)\<close>; \<open>Inr None\<close>
    when nothing matches, \<open>Inr (Some g)\<close> with \<open>g\<close> the value of \<^verbatim>\<open>group(1)\<close> of the
    match, \<open>Inl\<close> when the search or \<^verbatim>\<open>group(1)\<close> raises;
  \<^item> \<open>run_cmd cmd\<close>: \<^verbatim>\<open>(status, out, err)\<close> of the command.
\<close>

record env =
  batchtype :: "string option"
  get_jobs :: "string list"
  get_value :: "string \<Rightarrow> string option \<Rightarrow> string option"
  get_value_unresolved :: "string \<Rightarrow> string option \<Rightarrow> string option"
  batch_cancel_nodes :: "string list"
  eval_resolved :: "string \<Rightarrow> bool option"
  get_submit_args :: "string \<Rightarrow> error + string"
  cime_config :: "string \<Rightarrow> string \<Rightarrow> string option"
  get_batch_script_for_job :: "string \<Rightarrow> string"
  case_function :: "string \<Rightarrow> (string \<times> bool) list \<Rightarrow> error option"
  run_cmd_no_fail :: "string \<Rightarrow> error + string"
  re_search_group1 :: "string \<Rightarrow> string \<Rightarrow> error + string option option"
  run_cmd :: "string \<Rightarrow> int \<times> string \<times> string"

text \<open>The keyword arguments of \<^verbatim>\<open>submit_jobs\<close>; \<open>start_job\<close> is its \<^verbatim>\<open>job\<close>.\<close>

record submit_opts =
  no_batch :: bool
  start_job :: "string option"
  user_prereq :: "string option"
  skip_pnl :: bool
  allow_fail :: bool
  resubmit_immediate :: bool
  mail_user :: "string option"
  mail_type :: "string list option"
  batch_args :: "string option"
  dry_run :: bool

section \<open>Run arguments of a job script\<close>

definition get_supported_args :: "string \<Rightarrow> bool \<Rightarrow> (string \<times> string) list" where
  "get_supported_args job nb =
     (if job \<in> set [''case.run'', ''case.test'']
      then [(''skip_pnl'', ''--skip-preview-namelist'')] else []) @
     (if job = ''case.run''
      then [(''set_continue_run'', ''--completion-sets-continue-run'')] else []) @
     (if job \<in> set [''case.st_archive'', ''case.run'']
      then (if job = ''case.st_archive'' \<and> nb
            then [(''resubmit'', ''--resubmit'')]
            else [(''submit_resubmits'', ''--resubmit'')])
      else [])"

text \<open>
  \<^verbatim>\<open>_build_run_args\<close>: of the keyword arguments, in the order of the call, those that
  are true and supported, each with its value and its flag.
\<close>

definition build_run_args ::
  "string \<Rightarrow> bool \<Rightarrow> (string \<times> bool) list \<Rightarrow> (string \<times> bool \<times> string) list" where
  "build_run_args job nb run_args =
     (let supported_args = get_supported_args job nb
      in concat (map (\<lambda>(arg_name, arg_value).
           (case map_of supported_args arg_name of
              Some flag \<Rightarrow> if arg_value then [(arg_name, arg_value, flag)] else []
            | None \<Rightarrow> [])) run_args))"

definition build_run_args_str :: "env \<Rightarrow> string \<Rightarrow> bool \<Rightarrow> (string \<times> bool) list \<Rightarrow> string" where
  "build_run_args_str e job nb run_args =
     (let args = build_run_args job nb run_args;
          run_args_str = py_join '' '' (map (\<lambda>(_, _, param). param) args)
      in case get_value e ''batch_env'' None of
           None \<Rightarrow> run_args_str
         | Some batch_env_flag \<Rightarrow>
             if batch_env_flag = [] then run_args_str
             else batch_env_flag @ '' ARGS_FOR_SCRIPT='' @ [CHR 0x27] @ run_args_str @ [CHR 0x27])"

text \<open>The keyword arguments both calls of \<^verbatim>\<open>_submit_single_job\<close> pass on.\<close>

definition run_args_of :: "submit_opts \<Rightarrow> (string \<times> bool) list" where
  "run_args_of a =
     [(''skip_pnl'', skip_pnl a), (''set_continue_run'', resubmit_immediate a),
      (''submit_resubmits'', \<not> resubmit_immediate a)]"

section \<open>Submitting one job\<close>

abbreviation sq :: string where
  "sq \<equiv> [CHR 0x27]"

text \<open>
  \<^verbatim>\<open>get_batch_mail_type\<close>: \<^verbatim>\<open>raw.split(",")\<close> on a missing value is an
  \<^verbatim>\<open>AttributeError\<close>, an unknown mail type a \<^verbatim>\<open>ValueError\<close> of \<^verbatim>\<open>index\<close>; the result is
  \<^verbatim>\<open>None\<close> when the configured list is too short.
\<close>

definition get_batch_mail_type :: "env \<Rightarrow> string \<Rightarrow> error + string option" where
  "get_batch_mail_type e mt =
     (case get_value e ''batch_mail_type'' None of
        None \<Rightarrow> Inl AttributeError
      | Some raw \<Rightarrow>
          (let mail_types = map py_strip (py_split_on CHR '','' raw)
           in case py_index [''never'', ''all'', ''begin'', ''end'', ''fail''] mt of
                None \<Rightarrow> Inl ValueError
              | Some idx \<Rightarrow>
                  Inr (if idx < length mail_types then Some (mail_types ! idx) else None)))"

fun mail_type_args_of :: "env \<Rightarrow> string list \<Rightarrow> error + string option list" where
  "mail_type_args_of e [] = Inr []"
| "mail_type_args_of e (indv_type # rest) =
     (case get_batch_mail_type e indv_type of
        Inl err \<Rightarrow> Inl err
      | Inr mail_type_arg \<Rightarrow>
          (case mail_type_args_of e rest of
             Inl err \<Rightarrow> Inl err
           | Inr mail_type_args \<Rightarrow> Inr (mail_type_arg # mail_type_args)))"

text \<open>\<^verbatim>\<open>sep.join(xs)\<close> where an element may be \<^verbatim>\<open>None\<close>: a \<^verbatim>\<open>TypeError\<close> then.\<close>

definition join_optional :: "string \<Rightarrow> string option list \<Rightarrow> error + string" where
  "join_optional sep xs =
     (if None \<in> set xs then Inl TypeError else Inr (py_join sep (map the xs)))"

definition get_job_id :: "env \<Rightarrow> string \<Rightarrow> error + string option" where
  "get_job_id e output =
     (case get_value e ''jobid_pattern'' None of
        None \<Rightarrow> Inl (Expect ''Could not find jobid_pattern in env_batch.xml'')
      | Some jobid_pattern \<Rightarrow>
          (case re_search_group1 e jobid_pattern output of
             Inl err \<Rightarrow> Inl err
           | Inr None \<Rightarrow>
               Inl (Expect (''Couldn'' @ sq @ ''t match jobid_pattern '' @ sq @ jobid_pattern @
                            sq @ '' within submit output:'' @ [CHR 0x0A] @ '' '' @
                            sq @ output @ sq))
           | Inr (Some jobid) \<Rightarrow> Inr jobid))"

text \<open>
  The dependency clause of \<^verbatim>\<open>_submit_single_job\<close>: the block under
  \<^verbatim>\<open>if dep_jobs is not None and len(dep_jobs) > 0\<close>, which yields the text appended
  to the submit arguments after a space. \<open>first_dep\<close> and \<open>more_deps\<close> are
  \<^verbatim>\<open>dep_jobs[0]\<close> and \<^verbatim>\<open>dep_jobs[1:]\<close>.
\<close>

definition dependency_clause :: "env \<Rightarrow> bool \<Rightarrow> string \<Rightarrow> string list \<Rightarrow> error + string" where
  "dependency_clause e allow_failure first_dep more_deps =
     (let dep_string =
            (if allow_failure
             then (case get_value e ''depend_allow_string'' None of
                     None \<Rightarrow> get_value e ''depend_string'' None
                   | Some d \<Rightarrow> Some d)
             else get_value e ''depend_string'' None)
      in case dep_string of
           None \<Rightarrow>
             Inl (Expect (sq @ ''depend_string'' @ sq @ '' is not defined for this batch system''))
         | Some dep_str \<Rightarrow>
             (case get_value e ''depend_separator'' None of
                None \<Rightarrow> Inl (Expect ''depend_separator string not defined'')
              | Some separator_string \<Rightarrow>
                  if \<not> py_contains ''jobid'' dep_str
                  then Inl (Expect ''depend_string is missing jobid for prerequisite jobs'')
                  else (let dep_ids_str =
                              foldl (\<lambda>acc dep_id. acc @ separator_string @ dep_id)
                                first_dep more_deps
                        in Inr (py_replace dep_str ''jobid'' (py_strip dep_ids_str)))))"

text \<open>
  The mail flags of \<^verbatim>\<open>_submit_single_job\<close>: what the two blocks on \<^verbatim>\<open>mail_user\<close> and
  \<^verbatim>\<open>mail_type\<close> append to the submit arguments.
\<close>

definition mail_user_args :: "env \<Rightarrow> submit_opts \<Rightarrow> string" where
  "mail_user_args e a =
     (let mu = (case mail_user a of
                  None \<Rightarrow> cime_config e ''main'' ''MAIL_USER''
                | Some u \<Rightarrow> Some u)
      in case mu of
           None \<Rightarrow> []
         | Some u \<Rightarrow>
             (case get_value e ''batch_mail_flag'' None of
                None \<Rightarrow> []
              | Some mail_user_flag \<Rightarrow> '' '' @ mail_user_flag @ '' '' @ u))"

definition resolved_mail_type :: "env \<Rightarrow> submit_opts \<Rightarrow> string \<Rightarrow> string list" where
  "resolved_mail_type e a job =
     (case mail_type a of
        Some mt \<Rightarrow> mt
      | None \<Rightarrow>
          (let configured =
                 (if job = ''case.test'' \<and> cime_config e ''create_test'' ''MAIL_TYPE'' \<noteq> None
                  then cime_config e ''create_test'' ''MAIL_TYPE''
                  else if cime_config e ''main'' ''MAIL_TYPE'' \<noteq> None
                  then cime_config e ''main'' ''MAIL_TYPE''
                  else get_value e ''batch_mail_default'' (Some ''PRIMARY''))
           in case configured of
                None \<Rightarrow> []
              | Some m \<Rightarrow> if m = [] then [] else py_split_on CHR '','' m))"

definition mail_type_args :: "env \<Rightarrow> submit_opts \<Rightarrow> string \<Rightarrow> error + string" where
  "mail_type_args e a job =
     (let mt = resolved_mail_type e a job
      in if mt = [] then Inr []
         else (case get_value e ''batch_mail_type_flag'' None of
                 None \<Rightarrow> Inr []
               | Some mail_type_flag \<Rightarrow>
                   (case mail_type_args_of e mt of
                      Inl err \<Rightarrow> Inl err
                    | Inr args \<Rightarrow>
                        (case (if mail_type_flag = ''-m''
                               then join_optional [] args
                               else join_optional ('' '' @ mail_type_flag @ '' '') args) of
                           Inl err \<Rightarrow> Inl err
                         | Inr joined \<Rightarrow> Inr ('' '' @ mail_type_flag @ '' '' @ joined)))))"

text \<open>
  The batch branch of \<^verbatim>\<open>_submit_single_job\<close> up to \<^verbatim>\<open>submitcmd\<close>: the submit arguments
  (those of \<^verbatim>\<open>get_submit_args\<close>, or \<^verbatim>\<open>BATCH_COMMAND_FLAGS\<close> when that is set), the
  dependency clause when there are dependency ids, \<^verbatim>\<open>batch_args\<close>, the mail flags, and
  the final sequence joined by spaces, each part stripped and \<^verbatim>\<open>None\<close> parts left out.
\<close>

definition submit_command :: "env \<Rightarrow> submit_opts \<Rightarrow> string \<Rightarrow> string list \<Rightarrow> error + string" where
  "submit_command e a job dep_jobs =
     (case get_submit_args e job of
        Inl err \<Rightarrow> Inl err
      | Inr from_args \<Rightarrow>
     (let args_override = get_value e ''BATCH_COMMAND_FLAGS'' (Some job);
          submitargs1 = (if args_override \<noteq> None \<and> args_override \<noteq> Some []
                         then the args_override else from_args)
      in case (case dep_jobs of
                 [] \<Rightarrow> Inr submitargs1
               | first_dep # more_deps \<Rightarrow>
                   (case dependency_clause e (allow_fail a) first_dep more_deps of
                      Inl err \<Rightarrow> Inl err
                    | Inr dep_string \<Rightarrow> Inr (submitargs1 @ '' '' @ dep_string))) of
           Inl err \<Rightarrow> Inl err
         | Inr submitargs2 \<Rightarrow>
     (let submitargs3 = submitargs2 @ (case batch_args a of None \<Rightarrow> [] | Some b \<Rightarrow> '' '' @ b);
          submitargs4 = submitargs3 @ mail_user_args e a
      in case mail_type_args e a job of
           Inl err \<Rightarrow> Inl err
         | Inr mail_flags \<Rightarrow>
     (let submitargs = submitargs4 @ mail_flags
      in case get_value e ''batch_submit'' None of
           None \<Rightarrow> Inl (Expect ''Unable to determine the correct command for batch submission.'')
         | Some batchsubmit \<Rightarrow>
     (let batchredirect = get_value e ''batch_redirect'' None;
          batch_env_flag = get_value e ''batch_env'' None;
          run_args = build_run_args_str e job False (run_args_of a);
          script = get_batch_script_for_job e job;
          sequence =
            (if batch_env_flag \<noteq> None \<and> batch_env_flag \<noteq> Some []
             then [Some batchsubmit, Some submitargs, Some run_args, batchredirect, Some script]
             else [Some batchsubmit, Some submitargs, batchredirect, Some script, Some run_args])
      in Inr (py_join '' '' (map (\<lambda>s. py_strip (the s)) (filter (\<lambda>s. s \<noteq> None) sequence))))))))"

text \<open>
  \<^verbatim>\<open>_submit_single_job\<close>. Its result is \<^verbatim>\<open>None\<close> without a batch system, the command
  in a dry run, and else the job id read from the output of the command.
\<close>

definition submit_single_job ::
  "env \<Rightarrow> submit_opts \<Rightarrow> string \<Rightarrow> string list \<Rightarrow> error + string option" where
  "submit_single_job e a job dep_jobs =
     (let batch_system = get_value e ''BATCH_SYSTEM'' None
      in if batch_system = None \<or> batch_system = Some ''none'' \<or> no_batch a
         then (if \<not> dry_run a
               then (case case_function e (py_replace job ''.'' ''_'')
                            (map (\<lambda>(k, v, _). (k, v)) (build_run_args job True (run_args_of a))) of
                       Some err \<Rightarrow> Inl err
                     | None \<Rightarrow> Inr None)
               else Inr None)
         else (case submit_command e a job dep_jobs of
                 Inl err \<Rightarrow> Inl err
               | Inr submitcmd \<Rightarrow>
                   if dry_run a then Inr (Some submitcmd)
                   else (case run_cmd_no_fail e submitcmd of
                           Inl err \<Rightarrow> Inl err
                         | Inr output \<Rightarrow> get_job_id e output)))"

section \<open>Submitting the jobs of a workflow\<close>

text \<open>
  The first loop of \<^verbatim>\<open>submit_jobs\<close>, over \<^verbatim>\<open>enumerate(alljobs)\<close>: the jobs from the start
  index on whose prerequisite holds, each with its \<^verbatim>\<open>dependency\<close> value. For the batch
  type cobalt the loop ends after the first job it looks at.
\<close>

definition prereq_holds :: "env \<Rightarrow> submit_opts \<Rightarrow> string \<Rightarrow> error + bool" where
  "prereq_holds e a job =
     (let prereq = get_value_unresolved e ''prereq'' (Some job)
      in if prereq = None \<or> Some job = start_job a \<or>
            (dry_run a \<and> prereq = Some ''$BUILD_COMPLETE'')
         then Inr True
         else (case eval_resolved e (the prereq) of
                 Some b \<Rightarrow> Inr b
               | None \<Rightarrow>
                   Inl (Expect (''Unable to evaluate prereq expression '' @ sq @
                                fmt (get_value e ''prereq'' (Some job)) @ sq @
                                '' for job '' @ sq @ job @ sq))))"

fun eligible_jobs ::
  "env \<Rightarrow> submit_opts \<Rightarrow> nat \<Rightarrow> (nat \<times> string) list \<Rightarrow> error + (string \<times> string option) list" where
  "eligible_jobs e a startindex [] = Inr []"
| "eligible_jobs e a startindex ((index, job) # rest) =
     (if index < startindex then eligible_jobs e a startindex rest
      else (case prereq_holds e a job of
              Inl err \<Rightarrow> Inl err
            | Inr prereq \<Rightarrow>
                (let here = (if prereq then [(job, get_value e ''dependency'' (Some job))] else [])
                 in if batchtype e = Some ''cobalt'' then Inr here
                    else (case eligible_jobs e a startindex rest of
                            Inl err \<Rightarrow> Inl err
                          | Inr jobs \<Rightarrow> Inr (here @ jobs)))))"

text \<open>
  Lines 450 to 456: the number of rounds and the value of \<^verbatim>\<open>RESUBMIT\<close> afterwards, from
  \<^verbatim>\<open>resubmit_immediate\<close> and the value of \<^verbatim>\<open>RESUBMIT\<close> before.
\<close>

definition plan_resubmit :: "bool \<Rightarrow> int \<Rightarrow> int \<times> int" where
  "plan_resubmit immediate resubmit =
     (if immediate
      then (let num_submit = resubmit + 1
            in (if num_submit \<le> 0 then 1 else num_submit, 0))
      else (1, resubmit))"

text \<open>
  The local variables of the submission loops: the ordered dictionary \<^verbatim>\<open>depid\<close> (an
  association list in insertion order), \<^verbatim>\<open>jobcmds\<close>, \<^verbatim>\<open>batch_job_id\<close> (\<open>None\<close> while the
  name is unbound), and as \<open>dep_log\<close> what the debug line "job ... depends on ..." is
  given at every submission: the job and its \<^verbatim>\<open>dep_jobs\<close>.
\<close>

record loop_state =
  depid :: "(string \<times> string option) list"
  jobcmds :: "(string \<times> string option) list"
  batch_job_id :: "string option option"
  dep_log :: "(string \<times> string list) list"

text \<open>
  The \<^verbatim>\<open>dep_jobs\<close> of one job, from the dictionary and \<^verbatim>\<open>prev_job\<close> as they stand:
  the external prerequisite, the ids (not \<^verbatim>\<open>None\<close>) that the dictionary holds for the
  declared dependencies \<^verbatim>\<open>deps\<close>, and \<^verbatim>\<open>prev_job\<close>.
\<close>

definition declared_deps :: "string option \<Rightarrow> string list" where
  "declared_deps dependency = (case dependency of None \<Rightarrow> [] | Some d \<Rightarrow> py_split d)"

definition dep_jobs_of ::
  "submit_opts \<Rightarrow> (string \<times> string option) list \<Rightarrow> string option \<Rightarrow> string option \<Rightarrow> string list" where
  "dep_jobs_of a ids prev_job dependency =
     (case user_prereq a of None \<Rightarrow> [] | Some u \<Rightarrow> [u]) @
     concat (map (\<lambda>dep. case map_of ids dep of
                           Some (Some i) \<Rightarrow> [i]
                         | _ \<Rightarrow> []) (declared_deps dependency)) @
     (case prev_job of None \<Rightarrow> [] | Some p \<Rightarrow> [p])"

text \<open>The inner loop: one round over the eligible jobs, with \<^verbatim>\<open>prev_job\<close> as it stands.\<close>

fun submit_round ::
  "env \<Rightarrow> submit_opts \<Rightarrow> string option \<Rightarrow> (string \<times> string option) list \<Rightarrow> loop_state \<Rightarrow>
   error + loop_state" where
  "submit_round e a prev_job [] st = Inr st"
| "submit_round e a prev_job ((job, dependency) # rest) st =
     (let dep_jobs = dep_jobs_of a (depid st) prev_job dependency
      in case submit_single_job e a job dep_jobs of
           Inl err \<Rightarrow> Inl err
         | Inr result \<Rightarrow>
             (case (if dry_run a
                    then (case py_index (get_jobs e) job of
                            None \<Rightarrow> Inl ValueError
                          | Some i \<Rightarrow> Inr (Some (py_str i)))
                    else Inr result) of
                Inl err \<Rightarrow> Inl err
              | Inr job_id \<Rightarrow>
                  (let st' = \<lparr>depid = AList.update job job_id (depid st),
                              jobcmds = jobcmds st @ [(job, result)],
                              batch_job_id = Some job_id,
                              dep_log = dep_log st @ [(job, dep_jobs)]\<rparr>
                   in if batchtype e = Some ''cobalt'' then Inr st'
                      else submit_round e a prev_job rest st')))"

text \<open>
  The outer loop, \<^verbatim>\<open>for _ in range(num_submit)\<close>: after every round \<^verbatim>\<open>prev_job\<close> becomes
  \<^verbatim>\<open>batch_job_id\<close>, which is an error while that name is unbound.
\<close>

fun submit_rounds ::
  "env \<Rightarrow> submit_opts \<Rightarrow> (string \<times> string option) list \<Rightarrow> nat \<Rightarrow> string option \<Rightarrow> loop_state \<Rightarrow>
   error + loop_state" where
  "submit_rounds e a jobs 0 prev_job st = Inr st"
| "submit_rounds e a jobs (Suc n) prev_job st =
     (case submit_round e a prev_job jobs st of
        Inl err \<Rightarrow> Inl err
      | Inr st' \<Rightarrow>
          (case batch_job_id st' of
             None \<Rightarrow> Inl UnboundLocalError
           | Some job_id \<Rightarrow> submit_rounds e a jobs n job_id st'))"

text \<open>
  Lines 419 to 445 of \<^verbatim>\<open>submit_jobs\<close>: the start index (0, or the index of the job
  asked for, which must be known) and the list \<^verbatim>\<open>jobs\<close> of the first loop.
\<close>

definition select_jobs :: "env \<Rightarrow> submit_opts \<Rightarrow> error + (string \<times> string option) list" where
  "select_jobs e a =
     (let alljobs = get_jobs e
      in case (case start_job a of
                 None \<Rightarrow> Inr 0
               | Some job \<Rightarrow>
                   (case py_index alljobs job of
                      None \<Rightarrow> Inl (Expect (''Do not know about batch job '' @ job))
                    | Some i \<Rightarrow> Inr i)) of
           Inl err \<Rightarrow> Inl err
         | Inr startindex \<Rightarrow> eligible_jobs e a startindex (zip [0..<length alljobs] alljobs))"

definition initial_state :: loop_state where
  "initial_state = \<lparr>depid = [], jobcmds = [], batch_job_id = None, dep_log = []\<rparr>"

text \<open>
  \<^verbatim>\<open>submit_jobs\<close> up to its \<^verbatim>\<open>return\<close>: the final local variables or the error, and the
  value of \<^verbatim>\<open>RESUBMIT\<close> it leaves in the case (the argument \<open>resubmit\<close> is the value
  before the call).
\<close>

definition submit_jobs_run ::
  "env \<Rightarrow> submit_opts \<Rightarrow> int \<Rightarrow> (error + loop_state) \<times> int" where
  "submit_jobs_run e a resubmit =
     (case select_jobs e a of
        Inl err \<Rightarrow> (Inl err, resubmit)
      | Inr jobs \<Rightarrow>
          (let (num_submit, resubmit') = plan_resubmit (resubmit_immediate a) resubmit
           in (submit_rounds e a jobs (nat num_submit) None initial_state, resubmit')))"

text \<open>What \<^verbatim>\<open>submit_jobs\<close> returns: \<^verbatim>\<open>jobcmds\<close> in a dry run, else \<^verbatim>\<open>depid\<close>.\<close>

datatype submit_result =
    JobCmds "(string \<times> string option) list"
  | DepIds "(string \<times> string option) list"

definition submit_jobs :: "env \<Rightarrow> submit_opts \<Rightarrow> int \<Rightarrow> error + submit_result" where
  "submit_jobs e a resubmit =
     (case fst (submit_jobs_run e a resubmit) of
        Inl err \<Rightarrow> Inl err
      | Inr st \<Rightarrow> Inr (if dry_run a then JobCmds (jobcmds st) else DepIds (depid st)))"

section \<open>Cancelling a job\<close>

text \<open>
  \<^verbatim>\<open>cancel_job\<close>. The result is Python's: \<open>Some b\<close> for the boolean \<open>b\<close>, \<open>None\<close> for
  \<^verbatim>\<open>None\<close>, which a function returns that ends without a \<^verbatim>\<open>return\<close>.
\<close>

definition cancel_job :: "env \<Rightarrow> string \<Rightarrow> bool option" where
  "cancel_job e jobid =
     (case get_optional_child (batch_cancel_nodes e) of
        None \<Rightarrow> Some False
      | Some batch_cancel \<Rightarrow>
          (let cmd = batch_cancel @ '' '' @ jobid;
               (status, out, err) = run_cmd e cmd
           in if status \<noteq> 0 then None else Some True))"

section \<open>Example configurations\<close>

text \<open>
  Modelled from the spec: \<^verbatim>\<open>convert_to_seconds\<close> of \<^verbatim>\<open>CIME.utils\<close> is not under src/.
  The spec has walltimes such as "01:00:00" converted to seconds; the components
  between the colons are read as integers, the last one counting seconds, the one
  before minutes, the one before hours. It instantiates the parameter \<open>cts\<close> of
  \<open>queue_meets_spec\<close> in the examples.
\<close>

fun seconds_of :: "string list \<Rightarrow> error + int" where
  "seconds_of [] = Inr 0"
| "seconds_of (c # cs) =
     (case py_int c of
        None \<Rightarrow> Inl ValueError
      | Some i \<Rightarrow> (case seconds_of cs of Inl e \<Rightarrow> Inl e | Inr r \<Rightarrow> Inr (i + 60 * r)))"

definition convert_to_seconds :: "string \<Rightarrow> error + int" where
  "convert_to_seconds time_str = seconds_of (rev (py_split_on CHR '':'' time_str))"

text \<open>
  A catalog of three queues: the default queue \<open>regular\<close> with node bounds and a strict
  walltime limit of one hour, \<open>share\<close> with task bounds and a limit that is not strict,
  and \<open>archive\<close>, reserved by job name.
\<close>

definition example_queues :: "batch_system_node list" where
  "example_queues =
     [[[\<lparr>q_text = ''regular'', q_attrib = [(''default'', ''true''), (''nodemin'', ''1''),
          (''nodemax'', ''100''), (''walltimemax'', ''01:00:00''), (''strict'', ''true'')]\<rparr>,
        \<lparr>q_text = ''share'', q_attrib = [(''jobmin'', ''1''), (''jobmax'', ''36''),
          (''walltimemax'', ''06:00:00'')]\<rparr>,
        \<lparr>q_text = ''archive'', q_attrib = [(''jobname'', ''case.st_archive''),
          (''nodemax'', ''1'')]\<rparr>]]]"

text \<open>A catalog whose queue \<open>big\<close> sets both \<open>nodemin\<close> and \<open>jobmin\<close>.\<close>

definition conflicting_queues :: "batch_system_node list" where
  "conflicting_queues =
     [[[\<lparr>q_text = ''small'', q_attrib = [(''default'', ''true''), (''nodemax'', ''4'')]\<rparr>,
        \<lparr>q_text = ''big'', q_attrib = [(''nodemin'', ''5''), (''jobmin'', ''180'')]\<rparr>]]]"

text \<open>
  A workflow of three jobs on a batch system with the dependency syntax of SLURM:
  \<open>case.st_archive\<close> declares a dependency on \<open>case.run\<close>, \<open>case.lt_archive\<close> declares
  none. \<open>depend_allow_string\<close> is not configured. The submit command prints
  "Submitted batch job 1001", the cancel command fails.
\<close>

definition example_values :: "string \<Rightarrow> string option \<Rightarrow> string option" where
  "example_values item subgroup =
     map_of [((''BATCH_SYSTEM'', None), ''slurm''),
             ((''depend_string'', None), ''--dependency=afterok:jobid''),
             ((''depend_separator'', None), '',''),
             ((''batch_submit'', None), ''sbatch''),
             ((''jobid_pattern'', None), ''([0-9]+)$''),
             ((''dependency'', Some ''case.st_archive''), ''case.run'')]
       (item, subgroup)"

definition example_env :: env where
  "example_env =
     \<lparr>batchtype = Some ''slurm'',
      get_jobs = [''case.run'', ''case.st_archive'', ''case.lt_archive''],
      get_value = example_values,
      get_value_unresolved = example_values,
      batch_cancel_nodes = [''scancel''],
      eval_resolved = (\<lambda>p. Some True),
      get_submit_args = (\<lambda>job. Inr '' ''),
      cime_config = (\<lambda>sec opt. None),
      get_batch_script_for_job = (\<lambda>job. ''.'' @ job),
      case_function = (\<lambda>name kwargs. None),
      run_cmd_no_fail = (\<lambda>cmd. Inr ''Submitted batch job 1001''),
      re_search_group1 = (\<lambda>pattern output. Inr (Some (Some (drop 20 output)))),
      run_cmd = (\<lambda>cmd. (1, [], ''scancel: error: Invalid job id specified''))\<rparr>"

definition example_opts :: submit_opts where
  "example_opts =
     \<lparr>no_batch = False, start_job = None, user_prereq = None, skip_pnl = False,
      allow_fail = False, resubmit_immediate = False, mail_user = None, mail_type = None,
      batch_args = None, dry_run = False\<rparr>"

text \<open>
  The example workflow without a configured \<open>depend_separator\<close>, and the local
  variables at the end of a dry run of the example workflow in one round.
\<close>

definition example_env_no_separator :: env where
  "example_env_no_separator =
     example_env\<lparr>get_value :=
       (\<lambda>item subgroup. if item = ''depend_separator'' then None
                         else example_values item subgroup)\<rparr>"

definition example_dry_state :: loop_state where
  "example_dry_state =
     \<lparr>depid = [(''case.run'', Some ''0''), (''case.st_archive'', Some ''1''),
               (''case.lt_archive'', Some ''2'')],
      jobcmds = [(''case.run'', Some ''sbatch  .case.run --resubmit''),
                 (''case.st_archive'',
                  Some ''sbatch --dependency=afterok:0 .case.st_archive --resubmit''),
                 (''case.lt_archive'', Some ''sbatch  .case.lt_archive '')],
      batch_job_id = Some (Some ''2''),
      dep_log = [(''case.run'', []), (''case.st_archive'', [''0'']),
                 (''case.lt_archive'', [])]\<rparr>"

section \<open>Lemmas on the queue catalog\<close>

lemma find_queue_specs_unknown:
  "queue \<notin> q_text ` set nodes \<Longrightarrow> find_queue_specs nodes queue = Inr None"
  by (induction nodes) auto

lemma find_queue_specs_find:
  "find_queue_specs nodes queue =
     (case find (\<lambda>n. q_text n = queue) nodes of
        None \<Rightarrow> Inr None
      | Some node \<Rightarrow>
          (case specs_of_node node of Inl e \<Rightarrow> Inl e | Inr specs \<Rightarrow> Inr (Some specs)))"
  by (induction nodes) auto

lemma int_attr_cases:
  "int_attr node name = Inl ValueError \<or>
   (\<exists>v. int_attr node name = Inr v \<and> (v = None \<longleftrightarrow> get_attr node name = None))"
  by (auto simp: int_attr_def split: option.splits)

lemma specs_of_node_conflict:
  assumes "(get_attr node ''nodemin'' \<noteq> None \<and> get_attr node ''jobmin'' \<noteq> None) \<or>
           (get_attr node ''nodemax'' \<noteq> None \<and> get_attr node ''jobmax'' \<noteq> None)"
  shows "specs_of_node node = Inl ValueError \<or>
         specs_of_node node = Inl (Expect ''Cannot specify both nodemin and jobmin for a queue'') \<or>
         specs_of_node node = Inl (Expect ''Cannot specify both nodemax and jobmax for a queue'')"
proof -
  obtain a b c d where r:
    "int_attr node ''nodemin'' = a" "int_attr node ''nodemax'' = b"
    "int_attr node ''jobmin'' = c" "int_attr node ''jobmax'' = d" by blast
  note cs = int_attr_cases [of node "''nodemin''"] int_attr_cases [of node "''nodemax''"]
    int_attr_cases [of node "''jobmin''"] int_attr_cases [of node "''jobmax''"]
  show ?thesis
  proof (cases a)
    case (Inl e)
    with cs(1) r show ?thesis by (simp add: specs_of_node_def)
  next
    case a: (Inr nodemin)
    show ?thesis
    proof (cases b)
      case (Inl e)
      with cs(2) r a show ?thesis by (simp add: specs_of_node_def)
    next
      case b: (Inr nodemax)
      show ?thesis
      proof (cases c)
        case (Inl e)
        with cs(3) r a b show ?thesis by (simp add: specs_of_node_def)
      next
        case c: (Inr jobmin)
        show ?thesis
        proof (cases d)
          case (Inl e)
          with cs(4) r a b c show ?thesis by (simp add: specs_of_node_def)
        next
          case d: (Inr jobmax)
          have "(nodemin \<noteq> None \<and> jobmin \<noteq> None) \<or> (nodemax \<noteq> None \<and> jobmax \<noteq> None)"
            using assms cs r a b c d by auto
          then show ?thesis using r a b c d by (auto simp add: specs_of_node_def)
        qed
      qed
    qed
  qed
qed

lemma specs_of_node_exclusive:
  "specs_of_node node = Inr (nodemin, nodemax, jobname, walltimemax, jobmin, jobmax, strict) \<Longrightarrow>
   (nodemin = None \<or> jobmin = None) \<and> (nodemax = None \<or> jobmax = None)"
  by (auto simp: specs_of_node_def split: sum.splits if_splits)

lemma first_meeting_none:
  "(\<forall>q \<in> set qnames. meets q = Inr False) \<Longrightarrow> first_meeting meets qnames = Inr None"
  by (induction qnames) auto

lemma first_meeting_first:
  "i < length qnames \<Longrightarrow> meets (qnames ! i) = Inr True \<Longrightarrow>
   (\<forall>j < i. meets (qnames ! j) = Inr False) \<Longrightarrow>
   first_meeting meets qnames = Inr (Some (qnames ! i))"
proof (induction qnames arbitrary: i)
  case Nil
  then show ?case by simp
next
  case (Cons q qs)
  show ?case
  proof (cases i)
    case 0
    with Cons.prems show ?thesis by simp
  next
    case (Suc k)
    from Cons.prems Suc have q: "meets q = Inr False" by auto
    from Cons.prems Suc have "first_meeting meets qs = Inr (Some (qs ! k))"
      by (intro Cons.IH) auto
    with q Suc show ?thesis by simp
  qed
qed

lemma first_meeting_sound:
  "first_meeting meets qnames = Inr (Some q) \<Longrightarrow>
   \<exists>i < length qnames. qnames ! i = q \<and> meets q = Inr True \<and>
     (\<forall>j < i. meets (qnames ! j) = Inr False)"
proof (induction qnames)
  case Nil
  then show ?case by simp
next
  case (Cons p ps)
  show ?case
  proof (cases "meets p")
    case (Inl e)
    with Cons.prems show ?thesis by simp
  next
    case (Inr b)
    show ?thesis
    proof (cases b)
      case True
      with Inr Cons.prems have "p = q" by simp
      with Inr True show ?thesis by (intro exI [of _ 0]) simp
    next
      case False
      with Inr Cons.prems have "first_meeting meets ps = Inr (Some q)" by simp
      from Cons.IH [OF this] obtain i where i: "i < length ps" "ps ! i = q"
        "meets q = Inr True" "\<forall>j < i. meets (ps ! j) = Inr False" by blast
      have "\<forall>j < Suc i. meets ((p # ps) ! j) = Inr False"
      proof (intro allI impI)
        fix j assume "j < Suc i"
        with i(4) Inr False show "meets ((p # ps) ! j) = Inr False"
          by (cases j) auto
      qed
      with i show ?thesis by (intro exI [of _ "Suc i"]) simp
    qed
  qed
qed

lemma get_all_queues_example:
  "get_all_queues example_queues = hd (hd example_queues)"
  by (simp add: get_all_queues_def example_queues_def get_optional_child_def)

lemma queue_meets_spec_known:
  assumes "get_queue_specs bs_nodes queue =
             Inr (Some (nodemin, nodemax, jobname, walltimemax, jobmin, jobmax, strict))"
  shows "queue_meets_spec cts bs_nodes queue n t w job =
     (if job \<noteq> None \<and> jobname \<noteq> None then Inr (jobname = job)
      else if (nodemin \<noteq> None \<and> n < the nodemin) \<or> (nodemax \<noteq> None \<and> n > the nodemax) \<or>
              (jobmin \<noteq> None \<and> t < the jobmin) \<or> (jobmax \<noteq> None \<and> t > the jobmax)
      then Inr False
      else if w \<noteq> None \<and> walltimemax \<noteq> None \<and> strict
      then (case cts (the w) of
              Inl e \<Rightarrow> Inl e
            | Inr walltime_s \<Rightarrow>
                (case cts (the walltimemax) of
                   Inl e \<Rightarrow> Inl e
                 | Inr walltimemax_s \<Rightarrow>
                     if walltime_s > walltimemax_s then Inr False else Inr True))
      else Inr True)"
  unfolding queue_meets_spec_def assms by simp

section \<open>The claims on queue resolution\<close>

text \<open>
  C4. A queue name that no queue of the catalog carries has no specification, and
  \<open>queue_meets_spec\<close> returns true for it, whatever the node count, the task count, the
  walltime and the job name are.
\<close>

theorem C4_unknown_queue_meets_spec:
  "queue \<notin> q_text ` set (get_all_queues bs_nodes) \<Longrightarrow>
   get_queue_specs bs_nodes queue = Inr None \<and>
   queue_meets_spec cts bs_nodes queue num_nodes num_tasks walltime job = Inr True"
  by (simp add: queue_meets_spec_def get_queue_specs_def find_queue_specs_unknown)

theorem C4_unknown_queue_witness:
  "''debug'' \<notin> q_text ` set (get_all_queues example_queues) \<and>
   queue_meets_spec convert_to_seconds example_queues ''debug'' 100000 7
     (Some ''99:00:00'') (Some ''case.run'') = Inr True"
proof -
  have h: "''debug'' \<notin> q_text ` set (get_all_queues example_queues)"
    by (simp add: get_all_queues_def example_queues_def get_optional_child_def)
  from h C4_unknown_queue_meets_spec [OF h] show ?thesis by simp
qed

text \<open>
  C5. When a job name is given and the specification of the queue declares a job name,
  \<open>queue_meets_spec\<close> returns exactly whether the two are equal, whatever the bounds and
  the walltime limit of the queue and the request are.
\<close>

theorem C5_jobname_decides:
  "get_queue_specs bs_nodes queue =
     Inr (Some (nodemin, nodemax, Some jobname, walltimemax, jobmin, jobmax, strict)) \<Longrightarrow>
   queue_meets_spec cts bs_nodes queue num_nodes num_tasks walltime (Some job) =
     Inr (jobname = job)"
  by (simp add: queue_meets_spec_def)

lemma archive_specs:
  "get_queue_specs example_queues ''archive'' =
     Inr (Some (None, Some 1, Some ''case.st_archive'', None, None, None, False))"
  by code_simp

theorem C5_jobname_witness:
  "queue_meets_spec convert_to_seconds example_queues ''archive'' 500 18000
     (Some ''12:00:00'') (Some ''case.st_archive'') = Inr True \<and>
   queue_meets_spec convert_to_seconds example_queues ''archive'' 1 1
     None (Some ''case.run'') = Inr False"
  using C5_jobname_decides [OF archive_specs, of convert_to_seconds 500 18000
      "Some ''12:00:00''" "''case.st_archive''"]
    C5_jobname_decides [OF archive_specs, of convert_to_seconds 1 1 None "''case.run''"]
  by simp

text \<open>
  C6. \<open>select_best_queue\<close> scans the names of \<open>_get_all_queue_names\<close>, which are the
  default queue's name followed by the names of all queues: it returns the first name
  for which \<open>queue_meets_spec\<close> holds (every earlier name being rejected), none when
  every name is rejected, and the default queue's name whenever \<open>queue_meets_spec\<close>
  holds for it.
\<close>

theorem C6_select_best_queue_default_first:
  assumes "get_all_queue_names bs_nodes = Inr qnames"
  shows "(\<exists>d. get_default_queue bs_nodes = Inr d \<and>
            qnames = q_text d # map q_text (get_all_queues bs_nodes)) \<and>
    (\<forall>q. select_best_queue cts bs_nodes n t w j = Inr (Some q) \<longrightarrow>
       (\<exists>i < length qnames. qnames ! i = q \<and>
          queue_meets_spec cts bs_nodes q n t w j = Inr True \<and>
          (\<forall>k < i. queue_meets_spec cts bs_nodes (qnames ! k) n t w j = Inr False))) \<and>
    (\<forall>i < length qnames.
       queue_meets_spec cts bs_nodes (qnames ! i) n t w j = Inr True \<and>
       (\<forall>k < i. queue_meets_spec cts bs_nodes (qnames ! k) n t w j = Inr False) \<longrightarrow>
       select_best_queue cts bs_nodes n t w j = Inr (Some (qnames ! i))) \<and>
    ((\<forall>q \<in> set qnames. queue_meets_spec cts bs_nodes q n t w j = Inr False) \<longrightarrow>
       select_best_queue cts bs_nodes n t w j = Inr None) \<and>
    (queue_meets_spec cts bs_nodes (hd qnames) n t w j = Inr True \<longrightarrow>
       select_best_queue cts bs_nodes n t w j = Inr (Some (hd qnames)))"
proof -
  let ?meets = "\<lambda>q. queue_meets_spec cts bs_nodes q n t w j"
  have names: "\<exists>d. get_default_queue bs_nodes = Inr d \<and>
            qnames = q_text d # map q_text (get_all_queues bs_nodes)"
    using assms by (auto simp: get_all_queue_names_def split: sum.splits)
  then obtain q0 qs where cons: "qnames = q0 # qs" by blast
  have sel: "select_best_queue cts bs_nodes n t w j = first_meeting ?meets qnames"
    using assms by (simp add: select_best_queue_def)
  have sound: "\<forall>q. select_best_queue cts bs_nodes n t w j = Inr (Some q) \<longrightarrow>
       (\<exists>i < length qnames. qnames ! i = q \<and> ?meets q = Inr True \<and>
          (\<forall>k < i. ?meets (qnames ! k) = Inr False))"
    unfolding sel using first_meeting_sound [of ?meets qnames] by blast
  have first: "\<forall>i < length qnames.
       ?meets (qnames ! i) = Inr True \<and> (\<forall>k < i. ?meets (qnames ! k) = Inr False) \<longrightarrow>
       select_best_queue cts bs_nodes n t w j = Inr (Some (qnames ! i))"
    unfolding sel using first_meeting_first [of _ qnames ?meets] by blast
  have none: "(\<forall>q \<in> set qnames. ?meets q = Inr False) \<longrightarrow>
       select_best_queue cts bs_nodes n t w j = Inr None"
    unfolding sel using first_meeting_none [of qnames ?meets] by blast
  have dflt: "?meets (hd qnames) = Inr True \<longrightarrow>
       select_best_queue cts bs_nodes n t w j = Inr (Some (hd qnames))"
    unfolding sel cons by simp
  from names sound first none dflt show ?thesis by blast
qed

text \<open>
  C7. A queue whose element sets both \<open>nodemin\<close> and \<open>jobmin\<close>, or both \<open>nodemax\<close> and
  \<open>jobmax\<close>, has no usable specification: reading it with \<open>get_queue_specs\<close> fails (with
  the error of the check, or with the \<^verbatim>\<open>ValueError\<close> of \<^verbatim>\<open>int\<close> when a bound is not a
  number), and so does \<open>queue_meets_spec\<close>; and every specification that
  \<open>get_queue_specs\<close> does return has at most one of each pair of bounds. The element
  that counts for a name is the first one of the catalog with that name.
\<close>

theorem C7_conflicting_bounds_rejected:
  assumes "find (\<lambda>n. q_text n = queue) (get_all_queues bs_nodes) = Some node"
    and "(get_attr node ''nodemin'' \<noteq> None \<and> get_attr node ''jobmin'' \<noteq> None) \<or>
         (get_attr node ''nodemax'' \<noteq> None \<and> get_attr node ''jobmax'' \<noteq> None)"
  shows "(get_queue_specs bs_nodes queue = Inl ValueError \<or>
          get_queue_specs bs_nodes queue =
            Inl (Expect ''Cannot specify both nodemin and jobmin for a queue'') \<or>
          get_queue_specs bs_nodes queue =
            Inl (Expect ''Cannot specify both nodemax and jobmax for a queue'')) \<and>
         (\<exists>err. queue_meets_spec cts bs_nodes queue n t w j = Inl err) \<and>
         (\<forall>q nodemin nodemax jobname walltimemax jobmin jobmax strict.
            get_queue_specs bs_nodes q =
              Inr (Some (nodemin, nodemax, jobname, walltimemax, jobmin, jobmax, strict)) \<longrightarrow>
            (nodemin = None \<or> jobmin = None) \<and> (nodemax = None \<or> jobmax = None))"
proof -
  have eq: "get_queue_specs bs_nodes queue =
      (case specs_of_node node of Inl e \<Rightarrow> Inl e | Inr specs \<Rightarrow> Inr (Some specs))"
    using assms(1) by (simp add: get_queue_specs_def find_queue_specs_find)
  from specs_of_node_conflict [OF assms(2)]
  have 1: "get_queue_specs bs_nodes queue = Inl ValueError \<or>
          get_queue_specs bs_nodes queue =
            Inl (Expect ''Cannot specify both nodemin and jobmin for a queue'') \<or>
          get_queue_specs bs_nodes queue =
            Inl (Expect ''Cannot specify both nodemax and jobmax for a queue'')"
    unfolding eq by (elim disjE) simp_all
  then obtain err where "get_queue_specs bs_nodes queue = Inl err" by blast
  then have 2: "\<exists>err. queue_meets_spec cts bs_nodes queue n t w j = Inl err"
    by (simp add: queue_meets_spec_def)
  have 3: "(nodemin = None \<or> jobmin = None) \<and> (nodemax = None \<or> jobmax = None)"
    if "get_queue_specs bs_nodes q =
          Inr (Some (nodemin, nodemax, jobname, walltimemax, jobmin, jobmax, strict))"
    for q nodemin nodemax jobname walltimemax jobmin jobmax strict
  proof -
    from that obtain nd where "specs_of_node nd =
        Inr (nodemin, nodemax, jobname, walltimemax, jobmin, jobmax, strict)"
      by (auto simp: get_queue_specs_def find_queue_specs_find split: option.splits sum.splits)
    then show ?thesis by (rule specs_of_node_exclusive)
  qed
  from 1 2 3 show ?thesis by blast
qed

lemma big_queue_found:
  "find (\<lambda>n. q_text n = ''big'') (get_all_queues conflicting_queues) =
     Some \<lparr>q_text = ''big'', q_attrib = [(''nodemin'', ''5''), (''jobmin'', ''180'')]\<rparr>"
  by (simp add: get_all_queues_def conflicting_queues_def get_optional_child_def)

theorem C7_conflicting_bounds_witness:
  "get_queue_specs conflicting_queues ''big'' =
     Inl (Expect ''Cannot specify both nodemin and jobmin for a queue'') \<and>
   (\<exists>err. queue_meets_spec convert_to_seconds conflicting_queues ''big'' 8 288 None None = Inl err)"
proof -
  have c: "(get_attr \<lparr>q_text = ''big'', q_attrib = [(''nodemin'', ''5''), (''jobmin'', ''180'')]\<rparr>
              ''nodemin'' \<noteq> None \<and>
            get_attr \<lparr>q_text = ''big'', q_attrib = [(''nodemin'', ''5''), (''jobmin'', ''180'')]\<rparr>
              ''jobmin'' \<noteq> None) \<or>
           (get_attr \<lparr>q_text = ''big'', q_attrib = [(''nodemin'', ''5''), (''jobmin'', ''180'')]\<rparr>
              ''nodemax'' \<noteq> None \<and>
            get_attr \<lparr>q_text = ''big'', q_attrib = [(''nodemin'', ''5''), (''jobmin'', ''180'')]\<rparr>
              ''jobmax'' \<noteq> None)"
    by (simp add: get_attr_def)
  have v: "get_queue_specs conflicting_queues ''big'' =
     Inl (Expect ''Cannot specify both nodemin and jobmin for a queue'')"
    by code_simp
  from C7_conflicting_bounds_rejected [OF big_queue_found c, of convert_to_seconds 8 288 None None] v
  show ?thesis by blast
qed

text \<open>
  C9. For a queue whose specification is strict and has the walltime limit "01:00:00",
  and to which no job-name override applies, \<open>queue_meets_spec\<close> rejects the request
  "01:00:01" and decides the request "01:00:00" as it decides a request without
  walltime (it accepts it when the bounds admit the request), the two being compared
  in seconds. For a specification that is not strict, a request with any walltime is
  decided as the request without walltime is.
\<close>

theorem C9_walltime_strictness:
  assumes specs: "get_queue_specs bs_nodes queue =
             Inr (Some (nodemin, nodemax, jobname, walltimemax, jobmin, jobmax, strict))"
    and no_override: "job = None \<or> jobname = None"
    and c0: "cts ''01:00:00'' = Inr 3600" and c1: "cts ''01:00:01'' = Inr 3601"
  shows "(strict \<and> walltimemax = Some ''01:00:00'' \<longrightarrow>
            queue_meets_spec cts bs_nodes queue n t (Some ''01:00:01'') job = Inr False \<and>
            queue_meets_spec cts bs_nodes queue n t (Some ''01:00:00'') job =
              queue_meets_spec cts bs_nodes queue n t None job \<and>
            queue_meets_spec cts bs_nodes queue n t None job =
              Inr (\<not> ((nodemin \<noteq> None \<and> n < the nodemin) \<or> (nodemax \<noteq> None \<and> n > the nodemax) \<or>
                       (jobmin \<noteq> None \<and> t < the jobmin) \<or> (jobmax \<noteq> None \<and> t > the jobmax)))) \<and>
         (\<not> strict \<longrightarrow>
            (\<forall>w. queue_meets_spec cts bs_nodes queue n t (Some w) job =
                  queue_meets_spec cts bs_nodes queue n t None job))"
proof -
  define bad where "bad \<longleftrightarrow> (nodemin \<noteq> None \<and> n < the nodemin) \<or> (nodemax \<noteq> None \<and> n > the nodemax) \<or>
                       (jobmin \<noteq> None \<and> t < the jobmin) \<or> (jobmax \<noteq> None \<and> t > the jobmax)"
  have ov: "(job \<noteq> None \<and> jobname \<noteq> None) = False" using no_override by blast
  have k: "queue_meets_spec cts bs_nodes queue n t w job =
     (if bad then Inr False
      else if w \<noteq> None \<and> walltimemax \<noteq> None \<and> strict
      then (case cts (the w) of
              Inl e \<Rightarrow> Inl e
            | Inr walltime_s \<Rightarrow>
                (case cts (the walltimemax) of
                   Inl e \<Rightarrow> Inl e
                 | Inr walltimemax_s \<Rightarrow>
                     if walltime_s > walltimemax_s then Inr False else Inr True))
      else Inr True)" for w
    unfolding bad_def queue_meets_spec_known [OF specs] ov if_False by (rule refl)
  have none: "queue_meets_spec cts bs_nodes queue n t None job = Inr (\<not> bad)"
    unfolding k by simp
  have a: "queue_meets_spec cts bs_nodes queue n t (Some ''01:00:01'') job = Inr False"
    if "strict" "walltimemax = Some ''01:00:00''"
    unfolding k using that c0 c1 by simp
  have b: "queue_meets_spec cts bs_nodes queue n t (Some ''01:00:00'') job =
      queue_meets_spec cts bs_nodes queue n t None job"
    if "strict" "walltimemax = Some ''01:00:00''"
    unfolding k using that c0 by simp
  have c: "queue_meets_spec cts bs_nodes queue n t (Some w) job =
      queue_meets_spec cts bs_nodes queue n t None job" if "\<not> strict" for w
    unfolding k using that by simp
  from a b c none show ?thesis unfolding bad_def by blast
qed

lemma regular_specs:
  "get_queue_specs example_queues ''regular'' =
     Inr (Some (Some 1, Some 100, None, Some ''01:00:00'', None, None, True))"
  by code_simp

lemma share_specs:
  "get_queue_specs example_queues ''share'' =
     Inr (Some (None, None, None, Some ''06:00:00'', Some 1, Some 36, False))"
  by code_simp

lemma seconds_3600: "convert_to_seconds ''01:00:00'' = Inr 3600"
  by code_simp

lemma seconds_3601: "convert_to_seconds ''01:00:01'' = Inr 3601"
  by code_simp

theorem C9_walltime_witness:
  "queue_meets_spec convert_to_seconds example_queues ''regular'' 4 144
     (Some ''01:00:01'') None = Inr False \<and>
   queue_meets_spec convert_to_seconds example_queues ''regular'' 4 144
     (Some ''01:00:00'') None = Inr True \<and>
   queue_meets_spec convert_to_seconds example_queues ''share'' 1 36
     (Some ''01:00:01'') (Some ''case.run'') = Inr True \<and>
   queue_meets_spec convert_to_seconds example_queues ''share'' 1 36
     (Some ''01:00:00'') (Some ''case.run'') = Inr True"
proof -
  have j1: "(None :: string option) = None \<or> (None :: string option) = None" by simp
  have j2: "Some ''case.run'' = None \<or> (None :: string option) = None" by simp
  have s: "queue_meets_spec convert_to_seconds example_queues ''share'' 1 36
     None (Some ''case.run'') = Inr True" by code_simp
  from C9_walltime_strictness [OF regular_specs j1 seconds_3600 seconds_3601, of 4 144]
    C9_walltime_strictness [OF share_specs j2 seconds_3600 seconds_3601, of 1 36] s
  show ?thesis by simp
qed

lemma example_names:
  "get_all_queue_names example_queues = Inr [''regular'', ''regular'', ''share'', ''archive'']"
  by code_simp

theorem C6_select_best_queue_witness:
  "select_best_queue convert_to_seconds example_queues 4 144 (Some ''00:30:00'') None =
     Inr (Some ''regular'') \<and>
   select_best_queue convert_to_seconds example_queues 1 16 (Some ''02:00:00'') None =
     Inr (Some ''share'') \<and>
   select_best_queue convert_to_seconds example_queues 4 144 (Some ''02:00:00'') None =
     Inr None"
proof -
  note t = C6_select_best_queue_default_first [OF example_names, of convert_to_seconds]
  have m1: "queue_meets_spec convert_to_seconds example_queues ''regular'' 4 144
      (Some ''00:30:00'') None = Inr True" by code_simp
  have a: "select_best_queue convert_to_seconds example_queues 4 144 (Some ''00:30:00'') None =
     Inr (Some ''regular'')"
    using t [of 4 144 "Some ''00:30:00''" None] m1 by simp
  have r2: "queue_meets_spec convert_to_seconds example_queues ''regular'' 1 16
      (Some ''02:00:00'') None = Inr False" by code_simp
  have s2: "queue_meets_spec convert_to_seconds example_queues ''share'' 1 16
      (Some ''02:00:00'') None = Inr True" by code_simp
  have before: "\<forall>k < 2. queue_meets_spec convert_to_seconds example_queues
      ([''regular'', ''regular'', ''share'', ''archive''] ! k) 1 16 (Some ''02:00:00'') None =
      Inr False"
  proof (intro allI impI)
    fix k :: nat assume "k < 2"
    then have "k = 0 \<or> k = 1" by arith
    then show "queue_meets_spec convert_to_seconds example_queues
      ([''regular'', ''regular'', ''share'', ''archive''] ! k) 1 16 (Some ''02:00:00'') None =
      Inr False" using r2 by auto
  qed
  from t [of 1 16 "Some ''02:00:00''" None]
  have "\<forall>i < length [''regular'', ''regular'', ''share'', ''archive''].
       queue_meets_spec convert_to_seconds example_queues
         ([''regular'', ''regular'', ''share'', ''archive''] ! i) 1 16
         (Some ''02:00:00'') None = Inr True \<and>
       (\<forall>k < i. queue_meets_spec convert_to_seconds example_queues
          ([''regular'', ''regular'', ''share'', ''archive''] ! k) 1 16
          (Some ''02:00:00'') None = Inr False) \<longrightarrow>
       select_best_queue convert_to_seconds example_queues 1 16 (Some ''02:00:00'') None =
         Inr (Some ([''regular'', ''regular'', ''share'', ''archive''] ! i))"
    by blast
  from this [rule_format, of 2] s2 before
  have b: "select_best_queue convert_to_seconds example_queues 1 16 (Some ''02:00:00'') None =
     Inr (Some ''share'')"
    by simp
  have r3: "queue_meets_spec convert_to_seconds example_queues ''regular'' 4 144
      (Some ''02:00:00'') None = Inr False" by code_simp
  have s3: "queue_meets_spec convert_to_seconds example_queues ''share'' 4 144
      (Some ''02:00:00'') None = Inr False" by code_simp
  have a3: "queue_meets_spec convert_to_seconds example_queues ''archive'' 4 144
      (Some ''02:00:00'') None = Inr False" by code_simp
  have c: "select_best_queue convert_to_seconds example_queues 4 144 (Some ''02:00:00'') None =
     Inr None"
    using t [of 4 144 "Some ''02:00:00''" None] r3 s3 a3 by simp
  from a b c show ?thesis by simp
qed

section \<open>Lemmas on the submission loops\<close>

lemma set_update_subset: "set (AList.update k v al) \<subseteq> insert (k, v) (set al)"
  by (induction al) auto

lemma dep_jobs_of_set:
  "set (dep_jobs_of a ids prev dependency) =
     set_option (user_prereq a) \<union>
     {i. \<exists>d \<in> set (declared_deps dependency). map_of ids d = Some (Some i)} \<union>
     set_option prev"
  by (auto simp: dep_jobs_of_def split: option.splits)

lemma dep_jobs_of_no_ids:
  assumes "\<forall>p \<in> set ids. snd p = None"
  shows "dep_jobs_of a ids None dependency = (case user_prereq a of None \<Rightarrow> [] | Some u \<Rightarrow> [u])"
proof -
  have "(case map_of ids d of Some (Some i) \<Rightarrow> [i] | _ \<Rightarrow> []) = []" for d
  proof (cases "map_of ids d")
    case None
    then show ?thesis by simp
  next
    case (Some v)
    then have "(d, v) \<in> set ids" by (rule map_of_SomeD)
    with assms have "v = None" by fastforce
    with Some show ?thesis by simp
  qed
  then show ?thesis by (simp add: dep_jobs_of_def)
qed

lemma submit_round_Cons:
  assumes "submit_round e a prev ((job, dependency) # rest) st = Inr st'"
  shows "\<exists>result job_id.
     submit_single_job e a job (dep_jobs_of a (depid st) prev dependency) = Inr result \<and>
     (if dry_run a
      then (\<exists>i. py_index (get_jobs e) job = Some i \<and> job_id = Some (py_str i))
      else job_id = result) \<and>
     (if batchtype e = Some ''cobalt''
      then st' = \<lparr>depid = AList.update job job_id (depid st),
                   jobcmds = jobcmds st @ [(job, result)],
                   batch_job_id = Some job_id,
                   dep_log = dep_log st @ [(job, dep_jobs_of a (depid st) prev dependency)]\<rparr>
      else submit_round e a prev rest
             \<lparr>depid = AList.update job job_id (depid st),
              jobcmds = jobcmds st @ [(job, result)],
              batch_job_id = Some job_id,
              dep_log = dep_log st @ [(job, dep_jobs_of a (depid st) prev dependency)]\<rparr> = Inr st')"
proof (cases "submit_single_job e a job (dep_jobs_of a (depid st) prev dependency)")
  case (Inl err)
  with assms show ?thesis by (simp add: Let_def)
next
  case (Inr result)
  show ?thesis
  proof (cases "dry_run a")
    case True
    show ?thesis
    proof (cases "py_index (get_jobs e) job")
      case None
      with assms Inr True show ?thesis by (simp add: Let_def)
    next
      case (Some i)
      with assms Inr True show ?thesis
        by (cases "batchtype e = Some ''cobalt''") (simp_all add: Let_def)
    qed
  next
    case False
    with assms Inr show ?thesis
      by (cases "batchtype e = Some ''cobalt''") (simp_all add: Let_def)
  qed
qed

lemma submit_round_log_length:
  "batchtype e \<noteq> Some ''cobalt'' \<Longrightarrow> submit_round e a prev jobs st = Inr st' \<Longrightarrow>
   length (dep_log st') = length (dep_log st) + length jobs"
proof (induction jobs arbitrary: st)
  case Nil
  then show ?case by simp
next
  case (Cons jd rest)
  obtain job dependency where jd: "jd = (job, dependency)" by (cases jd)
  from submit_round_Cons [OF Cons.prems(2) [unfolded jd]] Cons.prems(1)
  obtain st1 where s: "submit_round e a prev rest st1 = Inr st'"
    and l: "length (dep_log st1) = Suc (length (dep_log st))"
    by (auto simp: Let_def)
  from Cons.IH [OF Cons.prems(1) s] l show ?case by simp
qed

lemma submit_rounds_log_length:
  "batchtype e \<noteq> Some ''cobalt'' \<Longrightarrow> submit_rounds e a jobs n prev st = Inr st' \<Longrightarrow>
   length (dep_log st') = length (dep_log st) + n * length jobs"
proof (induction n arbitrary: prev st)
  case 0
  then show ?case by simp
next
  case (Suc n)
  from Suc.prems(2) obtain st1 p where r: "submit_round e a prev jobs st = Inr st1"
    and rest: "submit_rounds e a jobs n p st1 = Inr st'"
    by (auto split: sum.splits option.splits)
  from submit_round_log_length [OF Suc.prems(1) r] Suc.IH [OF Suc.prems(1) rest]
  show ?case by simp
qed

lemma submit_jobs_run_selected:
  "select_jobs e a = Inr jobs \<Longrightarrow>
   submit_jobs_run e a resubmit =
     (submit_rounds e a jobs (nat (fst (plan_resubmit (resubmit_immediate a) resubmit))) None
        initial_state,
      snd (plan_resubmit (resubmit_immediate a) resubmit))"
  by (simp add: submit_jobs_run_def split_beta)

section \<open>The claims on resubmission\<close>

text \<open>
  C8. With \<open>resubmit_immediate\<close> the number of rounds is the \<^verbatim>\<open>RESUBMIT\<close> counter plus
  one, and at least one, and the counter is set to 0; without it there is one round
  and the counter keeps its value. Once the jobs are selected \<open>submit_jobs\<close> leaves the
  counter so, and a run that succeeds (for a batch type other than cobalt) has made as
  many submissions as rounds times selected jobs.
\<close>

theorem C8_resubmit_rounds:
  "plan_resubmit True resubmit = (max 1 (resubmit + 1), 0) \<and>
   plan_resubmit False resubmit = (1, resubmit) \<and>
   (\<forall>jobs. select_jobs e a = Inr jobs \<longrightarrow>
      snd (submit_jobs_run e a resubmit) = (if resubmit_immediate a then 0 else resubmit) \<and>
      (\<forall>st. batchtype e \<noteq> Some ''cobalt'' \<and> fst (submit_jobs_run e a resubmit) = Inr st \<longrightarrow>
         length (dep_log st) =
           nat (if resubmit_immediate a then max 1 (resubmit + 1) else 1) * length jobs))"
proof -
  have p1: "plan_resubmit True resubmit = (max 1 (resubmit + 1), 0)"
    by (simp add: plan_resubmit_def Let_def max_def)
  have p2: "plan_resubmit False resubmit = (1, resubmit)"
    by (simp add: plan_resubmit_def)
  have p: "plan_resubmit (resubmit_immediate a) resubmit =
      (if resubmit_immediate a then max 1 (resubmit + 1) else 1,
       if resubmit_immediate a then 0 else resubmit)"
    using p1 p2 by simp
  have c: "snd (submit_jobs_run e a resubmit) = (if resubmit_immediate a then 0 else resubmit)"
    if "select_jobs e a = Inr jobs" for jobs
    unfolding submit_jobs_run_selected [OF that] p by simp
  have l: "length (dep_log st) =
           nat (if resubmit_immediate a then max 1 (resubmit + 1) else 1) * length jobs"
    if "select_jobs e a = Inr jobs" "batchtype e \<noteq> Some ''cobalt''"
       "fst (submit_jobs_run e a resubmit) = Inr st" for jobs st
  proof -
    from that(3) have "submit_rounds e a jobs
        (nat (if resubmit_immediate a then max 1 (resubmit + 1) else 1)) None initial_state = Inr st"
      unfolding submit_jobs_run_selected [OF that(1)] p by simp
    from submit_rounds_log_length [OF that(2) this] show ?thesis
      by (simp add: initial_state_def)
  qed
  from p1 p2 c l show ?thesis by blast
qed

lemma example_dry_run:
  "fst (submit_jobs_run example_env (example_opts\<lparr>dry_run := True\<rparr>) 0) = Inr example_dry_state"
  by code_simp

section \<open>The claims on submission\<close>

lemma nobatch_single:
  assumes "get_value e ''BATCH_SYSTEM'' None = None \<or>
           get_value e ''BATCH_SYSTEM'' None = Some ''none'' \<or> no_batch a"
    and "\<not> dry_run a"
  shows "submit_single_job e a job dep_jobs =
     (case case_function e (py_replace job ''.'' ''_'')
             (map (\<lambda>(k, v, _). (k, v)) (build_run_args job True (run_args_of a))) of
        Some err \<Rightarrow> Inl err
      | None \<Rightarrow> Inr None)"
  using assms by (elim disjE) (simp_all add: submit_single_job_def)

lemma nobatch_round:
  assumes nb: "get_value e ''BATCH_SYSTEM'' None = None \<or>
           get_value e ''BATCH_SYSTEM'' None = Some ''none'' \<or> no_batch a"
    and nd: "\<not> dry_run a"
  shows "submit_round e a None jobs st = Inr st' \<Longrightarrow>
     \<forall>p \<in> set (depid st). snd p = None \<Longrightarrow>
     \<forall>p \<in> set (dep_log st). snd p = (case user_prereq a of None \<Rightarrow> [] | Some u \<Rightarrow> [u]) \<Longrightarrow>
     batch_job_id st = None \<or> batch_job_id st = Some None \<Longrightarrow>
     (\<forall>p \<in> set (depid st'). snd p = None) \<and>
     (\<forall>p \<in> set (dep_log st'). snd p = (case user_prereq a of None \<Rightarrow> [] | Some u \<Rightarrow> [u])) \<and>
     (batch_job_id st' = None \<or> batch_job_id st' = Some None)"
proof (induction jobs arbitrary: st)
  case Nil
  then show ?case by simp
next
  case (Cons jd rest)
  obtain job dependency where jd: "jd = (job, dependency)" by (cases jd)
  let ?deps = "dep_jobs_of a (depid st) None dependency"
  from submit_round_Cons [OF Cons.prems(1) [unfolded jd]] nd
  obtain result where single: "submit_single_job e a job ?deps = Inr result"
    and next_state: "if batchtype e = Some ''cobalt''
      then st' = \<lparr>depid = AList.update job result (depid st),
                   jobcmds = jobcmds st @ [(job, result)],
                   batch_job_id = Some result,
                   dep_log = dep_log st @ [(job, ?deps)]\<rparr>
      else submit_round e a None rest
             \<lparr>depid = AList.update job result (depid st),
              jobcmds = jobcmds st @ [(job, result)],
              batch_job_id = Some result,
              dep_log = dep_log st @ [(job, ?deps)]\<rparr> = Inr st'"
    by auto
  let ?st1 = "\<lparr>depid = AList.update job result (depid st),
              jobcmds = jobcmds st @ [(job, result)],
              batch_job_id = Some result,
              dep_log = dep_log st @ [(job, ?deps)]\<rparr>"
  from single have res: "result = None"
    unfolding nobatch_single [OF nb nd] by (simp split: option.splits)
  have deps: "?deps = (case user_prereq a of None \<Rightarrow> [] | Some u \<Rightarrow> [u])"
    using Cons.prems(2) by (rule dep_jobs_of_no_ids)
  have i1: "\<forall>p \<in> set (depid ?st1). snd p = None"
    using set_update_subset [of job result "depid st"] Cons.prems(2) res by auto
  have i2: "\<forall>p \<in> set (dep_log ?st1). snd p = (case user_prereq a of None \<Rightarrow> [] | Some u \<Rightarrow> [u])"
    using Cons.prems(3) deps by auto
  have i3: "batch_job_id ?st1 = None \<or> batch_job_id ?st1 = Some None"
    using res by simp
  show ?case
  proof (cases "batchtype e = Some ''cobalt''")
    case True
    with next_state have "st' = ?st1" by simp
    with i1 i2 i3 show ?thesis by blast
  next
    case False
    with next_state have "submit_round e a None rest ?st1 = Inr st'" by simp
    from Cons.IH [OF this i1 i2 i3] show ?thesis .
  qed
qed

lemma nobatch_rounds:
  assumes nb: "get_value e ''BATCH_SYSTEM'' None = None \<or>
           get_value e ''BATCH_SYSTEM'' None = Some ''none'' \<or> no_batch a"
    and nd: "\<not> dry_run a"
  shows "submit_rounds e a jobs n None st = Inr st' \<Longrightarrow>
     \<forall>p \<in> set (depid st). snd p = None \<Longrightarrow>
     \<forall>p \<in> set (dep_log st). snd p = (case user_prereq a of None \<Rightarrow> [] | Some u \<Rightarrow> [u]) \<Longrightarrow>
     batch_job_id st = None \<or> batch_job_id st = Some None \<Longrightarrow>
     (\<forall>p \<in> set (depid st'). snd p = None) \<and>
     (\<forall>p \<in> set (dep_log st'). snd p = (case user_prereq a of None \<Rightarrow> [] | Some u \<Rightarrow> [u]))"
proof (induction n arbitrary: st)
  case 0
  then show ?case by simp
next
  case (Suc n)
  from Suc.prems(1) obtain st1 p where r: "submit_round e a None jobs st = Inr st1"
    and b: "batch_job_id st1 = Some p"
    and rest: "submit_rounds e a jobs n p st1 = Inr st'"
    by (auto split: sum.splits option.splits)
  from nobatch_round [OF nb nd r Suc.prems(2) Suc.prems(3) Suc.prems(4)]
  have inv: "\<forall>p \<in> set (depid st1). snd p = None"
      "\<forall>p \<in> set (dep_log st1). snd p = (case user_prereq a of None \<Rightarrow> [] | Some u \<Rightarrow> [u])"
      "batch_job_id st1 = None \<or> batch_job_id st1 = Some None"
    by blast+
  from inv(3) b have "p = None" by simp
  with rest have "submit_rounds e a jobs n None st1 = Inr st'" by simp
  from Suc.IH [OF this inv] show ?case .
qed

text \<open>
  C10. Without a batch system (\<^verbatim>\<open>BATCH_SYSTEM\<close> missing or "none", or \<open>no_batch\<close>) and
  not in a dry run, \<open>_submit_single_job\<close> runs the job's entry point and returns
  \<^verbatim>\<open>None\<close> (or fails as the entry point fails), whatever the dependency ids are: no
  dependency clause is built. So every value of the dictionary that \<open>submit_jobs\<close>
  returns is \<^verbatim>\<open>None\<close>, and the dependency ids of every submission are the external
  prerequisite alone: no id of a declared dependency or of a previous job is among them.
\<close>

theorem C10_no_batch_no_ids:
  assumes nb: "get_value e ''BATCH_SYSTEM'' None = None \<or>
           get_value e ''BATCH_SYSTEM'' None = Some ''none'' \<or> no_batch a"
    and nd: "\<not> dry_run a"
  shows "(\<forall>job dep_jobs. submit_single_job e a job dep_jobs =
            (case case_function e (py_replace job ''.'' ''_'')
                    (map (\<lambda>(k, v, _). (k, v)) (build_run_args job True (run_args_of a))) of
               Some err \<Rightarrow> Inl err
             | None \<Rightarrow> Inr None)) \<and>
         (\<forall>res. submit_jobs e a resubmit = Inr res \<longrightarrow>
            (\<exists>d. res = DepIds d \<and> (\<forall>p \<in> set d. snd p = None))) \<and>
         (\<forall>st. fst (submit_jobs_run e a resubmit) = Inr st \<longrightarrow>
            (\<forall>p \<in> set (dep_log st).
               snd p = (case user_prereq a of None \<Rightarrow> [] | Some u \<Rightarrow> [u])))"
proof -
  have inv: "(\<forall>p \<in> set (depid st). snd p = None) \<and>
     (\<forall>p \<in> set (dep_log st). snd p = (case user_prereq a of None \<Rightarrow> [] | Some u \<Rightarrow> [u]))"
    if "fst (submit_jobs_run e a resubmit) = Inr st" for st
  proof (cases "select_jobs e a")
    case (Inl err)
    with that show ?thesis by (simp add: submit_jobs_run_def)
  next
    case (Inr jobs)
    from that obtain n where "submit_rounds e a jobs n None initial_state = Inr st"
      unfolding submit_jobs_run_selected [OF Inr] by auto
    from nobatch_rounds [OF nb nd this] show ?thesis by (simp add: initial_state_def)
  qed
  have res: "\<exists>d. res = DepIds d \<and> (\<forall>p \<in> set d. snd p = None)"
    if "submit_jobs e a resubmit = Inr res" for res
  proof -
    from that obtain st where st: "fst (submit_jobs_run e a resubmit) = Inr st"
      and r: "res = DepIds (depid st)"
      using nd by (auto simp: submit_jobs_def split: sum.splits)
    from inv [OF st] r show ?thesis by blast
  qed
  from nobatch_single [OF nb nd] inv res show ?thesis by blast
qed

lemma example_no_batch_run:
  "submit_jobs example_env (example_opts\<lparr>no_batch := True, user_prereq := Some ''77''\<rparr>) 0 =
     Inr (DepIds [(''case.run'', None), (''case.st_archive'', None), (''case.lt_archive'', None)])"
  by code_simp

theorem C10_no_batch_witness:
  "submit_single_job example_env (example_opts\<lparr>no_batch := True, user_prereq := Some ''77''\<rparr>)
     ''case.st_archive'' [''77'', ''1001''] = Inr None \<and>
   (\<exists>d. submit_jobs example_env (example_opts\<lparr>no_batch := True, user_prereq := Some ''77''\<rparr>) 0 =
      Inr (DepIds d) \<and> snd ` set d = {None})"
proof -
  let ?a = "example_opts\<lparr>no_batch := True, user_prereq := Some ''77''\<rparr>"
  have nb: "get_value example_env ''BATCH_SYSTEM'' None = None \<or>
      get_value example_env ''BATCH_SYSTEM'' None = Some ''none'' \<or> no_batch ?a"
    by simp
  have nd: "\<not> dry_run ?a" by (simp add: example_opts_def)
  note t = C10_no_batch_no_ids [OF nb nd, of 0]
  have cf: "case_function example_env name kwargs = None" for name kwargs
    by (simp add: example_env_def)
  from t have "submit_single_job example_env ?a ''case.st_archive'' [''77'', ''1001''] =
      (case case_function example_env (py_replace ''case.st_archive'' ''.'' ''_'')
              (map (\<lambda>(k, v, _). (k, v))
                 (build_run_args ''case.st_archive'' True (run_args_of ?a))) of
         Some err \<Rightarrow> Inl err | None \<Rightarrow> Inr None)"
    by blast
  then have 1: "submit_single_job example_env ?a ''case.st_archive'' [''77'', ''1001''] = Inr None"
    unfolding cf by simp
  from t example_no_batch_run
  have "\<exists>d. DepIds [(''case.run'', None), (''case.st_archive'', None), (''case.lt_archive'', None)] =
       DepIds d \<and> (\<forall>p \<in> set d. snd p = None)"
    by blast
  with example_no_batch_run
  have 2: "\<exists>d. submit_jobs example_env ?a 0 = Inr (DepIds d) \<and> snd ` set d = {None}"
    by auto
  from 1 2 show ?thesis by blast
qed

lemma example_resubmit_selected:
  "select_jobs example_env (example_opts\<lparr>dry_run := True, resubmit_immediate := True\<rparr>) =
     Inr [(''case.run'', None), (''case.st_archive'', Some ''case.run''),
          (''case.lt_archive'', None)]"
  by code_simp

lemma example_resubmit_runs:
  "isl (fst (submit_jobs_run example_env
     (example_opts\<lparr>dry_run := True, resubmit_immediate := True\<rparr>) 1)) = False"
  by code_simp

theorem C8_resubmit_witness:
  "snd (submit_jobs_run example_env
     (example_opts\<lparr>dry_run := True, resubmit_immediate := True\<rparr>) 1) = 0 \<and>
   (\<exists>st. fst (submit_jobs_run example_env
     (example_opts\<lparr>dry_run := True, resubmit_immediate := True\<rparr>) 1) = Inr st \<and>
     length (dep_log st) = 6)"
proof -
  let ?a = "example_opts\<lparr>dry_run := True, resubmit_immediate := True\<rparr>"
  note t = C8_resubmit_rounds [of 1 example_env ?a]
  have ri: "resubmit_immediate ?a" by simp
  have nc: "batchtype example_env \<noteq> Some ''cobalt''" by (simp add: example_env_def)
  from example_resubmit_runs obtain st where
    st: "fst (submit_jobs_run example_env ?a 1) = Inr st"
    by (cases "fst (submit_jobs_run example_env ?a 1)") auto
  from t example_resubmit_selected ri
  have 1: "snd (submit_jobs_run example_env ?a 1) = 0" by simp
  from t example_resubmit_selected nc st ri
  have "length (dep_log st) = nat (max 1 (1 + 1)) * length [(''case.run'', None :: string option),
      (''case.st_archive'', Some ''case.run''), (''case.lt_archive'', None)]"
    by simp
  then have 2: "length (dep_log st) = 6" by simp
  from 1 2 st show ?thesis by blast
qed

text \<open>
  C3. Where cancellation is configured and the cancel command exits with a nonzero
  status, \<open>cancel_job\<close> ends without a \<^verbatim>\<open>return\<close>: its result is \<^verbatim>\<open>None\<close>, which is
  neither \<^verbatim>\<open>True\<close> nor \<^verbatim>\<open>False\<close>. The example configuration has the cancel command
  "scancel", which fails with status 1.
\<close>

theorem C3_cancel_failure_returns_none:
  "get_optional_child (batch_cancel_nodes example_env) = Some ''scancel'' \<and>
   run_cmd example_env ''scancel 1001'' = (1, [], ''scancel: error: Invalid job id specified'') \<and>
   cancel_job example_env ''1001'' = None"
  by code_simp

lemma cancel_job_cases:
  "cancel_job e jobid =
     (case get_optional_child (batch_cancel_nodes e) of
        None \<Rightarrow> Some False
      | Some batch_cancel \<Rightarrow>
          if fst (run_cmd e (batch_cancel @ '' '' @ jobid)) = 0 then Some True else None)"
  by (simp add: cancel_job_def Let_def split_beta split: option.splits)

lemma select_three:
  assumes "get_jobs e = [A, B, C]" and "start_job a = None"
    and "prereq_holds e a A = Inr True" "prereq_holds e a B = Inr True"
      "prereq_holds e a C = Inr True"
    and "batchtype e \<noteq> Some ''cobalt''"
  shows "select_jobs e a =
     Inr [(A, get_value e ''dependency'' (Some A)), (B, get_value e ''dependency'' (Some B)),
          (C, get_value e ''dependency'' (Some C))]"
  using assms by (simp add: select_jobs_def Let_def)

lemma submit_round_three:
  assumes r: "submit_round e a prev [(A, dA), (B, dB), (C, dC)] initial_state = Inr st"
    and nc: "batchtype e \<noteq> Some ''cobalt''"
    and dist: "A \<noteq> B" "A \<noteq> C" "B \<noteq> C"
  shows "\<exists>iA iB iC.
     depid st = [(A, iA), (B, iB), (C, iC)] \<and>
     dep_log st = [(A, dep_jobs_of a [] prev dA), (B, dep_jobs_of a [(A, iA)] prev dB),
                   (C, dep_jobs_of a [(A, iA), (B, iB)] prev dC)]"
proof -
  from submit_round_Cons [OF r] nc obtain rA iA where
    sA: "submit_round e a prev [(B, dB), (C, dC)]
           \<lparr>depid = [(A, iA)], jobcmds = [(A, rA)], batch_job_id = Some iA,
            dep_log = [(A, dep_jobs_of a [] prev dA)]\<rparr> = Inr st"
    by (auto simp: initial_state_def)
  from submit_round_Cons [OF sA] nc dist obtain rB iB where
    sB: "submit_round e a prev [(C, dC)]
           \<lparr>depid = [(A, iA), (B, iB)], jobcmds = [(A, rA), (B, rB)], batch_job_id = Some iB,
            dep_log = [(A, dep_jobs_of a [] prev dA), (B, dep_jobs_of a [(A, iA)] prev dB)]\<rparr> =
           Inr st"
    by auto
  from submit_round_Cons [OF sB] nc dist obtain rC iC where
    sC: "submit_round e a prev []
           \<lparr>depid = [(A, iA), (B, iB), (C, iC)], jobcmds = [(A, rA), (B, rB), (C, rC)],
            batch_job_id = Some iC,
            dep_log = [(A, dep_jobs_of a [] prev dA), (B, dep_jobs_of a [(A, iA)] prev dB),
                       (C, dep_jobs_of a [(A, iA), (B, iB)] prev dC)]\<rparr> = Inr st"
    by auto
  then show ?thesis by auto
qed

text \<open>
  C1, as amended. In a single round over the jobs A, B, C, all eligible, where B declares
  a dependency on A, \<open>submit_jobs\<close> submits A, B, C in this order and records their ids
  in this order; the dependency ids of B contain the id of A (when the submission of A
  gave one); and the dependency ids of C are the external prerequisite, if any,
  and the ids of those of A and B that C declares, nothing else. The id of the
  previous job is set after a round, for the next round: within the first round it adds
  nothing, so the id of B is among the dependency ids of C only when C declares B (or
  when it equals one of the ids named before).
\<close>

theorem C1_single_round_dependencies:
  assumes jobs: "get_jobs e = [A, B, C]"
    and dist: "A \<noteq> B" "A \<noteq> C" "B \<noteq> C"
    and start: "start_job a = None"
    and pre: "prereq_holds e a A = Inr True" "prereq_holds e a B = Inr True"
      "prereq_holds e a C = Inr True"
    and nc: "batchtype e \<noteq> Some ''cobalt''"
    and single: "\<not> resubmit_immediate a"
    and decl: "A \<in> set (declared_deps (get_value e ''dependency'' (Some B)))"
    and run: "fst (submit_jobs_run e a resubmit) = Inr st"
  shows "map fst (dep_log st) = [A, B, C] \<and>
     map fst (depid st) = [A, B, C] \<and>
     (\<forall>i. map_of (depid st) A = Some (Some i) \<longrightarrow> i \<in> set (snd (dep_log st ! 1))) \<and>
     set (snd (dep_log st ! 2)) =
       set_option (user_prereq a) \<union>
       {i. \<exists>d \<in> set (declared_deps (get_value e ''dependency'' (Some C))) \<inter> {A, B}.
             map_of (depid st) d = Some (Some i)}"
proof -
  let ?dA = "get_value e ''dependency'' (Some A)"
  let ?dB = "get_value e ''dependency'' (Some B)"
  let ?dC = "get_value e ''dependency'' (Some C)"
  note sel = select_three [OF jobs start pre nc]
  from run single
  have "submit_rounds e a [(A, ?dA), (B, ?dB), (C, ?dC)] (Suc 0) None initial_state = Inr st"
    unfolding submit_jobs_run_selected [OF sel] by (simp add: plan_resubmit_def)
  then have "submit_round e a None [(A, ?dA), (B, ?dB), (C, ?dC)] initial_state = Inr st"
    by (auto split: sum.splits option.splits)
  from submit_round_three [OF this nc dist] obtain iA iB iC where
    ids: "depid st = [(A, iA), (B, iB), (C, iC)]"
    and lg: "dep_log st = [(A, dep_jobs_of a [] None ?dA), (B, dep_jobs_of a [(A, iA)] None ?dB),
                   (C, dep_jobs_of a [(A, iA), (B, iB)] None ?dC)]"
    by blast
  have 1: "map fst (dep_log st) = [A, B, C]" by (simp add: lg)
  have 2: "map fst (depid st) = [A, B, C]" by (simp add: ids)
  have 3: "i \<in> set (snd (dep_log st ! 1))" if "map_of (depid st) A = Some (Some i)" for i
  proof -
    from that have "iA = Some i" by (simp add: ids)
    then have "map_of [(A, iA)] A = Some (Some i)" by simp
    with decl have "i \<in> set (dep_jobs_of a [(A, iA)] None ?dB)"
      unfolding dep_jobs_of_set by blast
    then show ?thesis by (simp add: lg)
  qed
  have m: "(d \<in> {A, B} \<and> map_of (depid st) d = Some (Some i)) \<longleftrightarrow>
      map_of [(A, iA), (B, iB)] d = Some (Some i)" for d i
    using dist by (auto simp: ids)
  have "set (snd (dep_log st ! 2)) = set (dep_jobs_of a [(A, iA), (B, iB)] None ?dC)"
    by (simp add: lg)
  also have "\<dots> = set_option (user_prereq a) \<union>
       {i. \<exists>d \<in> set (declared_deps ?dC). map_of [(A, iA), (B, iB)] d = Some (Some i)}"
    unfolding dep_jobs_of_set by simp
  also have "\<dots> = set_option (user_prereq a) \<union>
       {i. \<exists>d \<in> set (declared_deps ?dC) \<inter> {A, B}. map_of (depid st) d = Some (Some i)}"
    using m by blast
  finally have 4: "set (snd (dep_log st ! 2)) =
       set_option (user_prereq a) \<union>
       {i. \<exists>d \<in> set (declared_deps ?dC) \<inter> {A, B}. map_of (depid st) d = Some (Some i)}" .
  from 1 2 3 4 show ?thesis by blast
qed

text \<open>
  The claim C1 as stated fails on a dry run of the example workflow, where
  \<open>case.st_archive\<close> declares \<open>case.run\<close> and \<open>case.lt_archive\<close> declares nothing: the ids
  are "0", "1" and "2", and the dependency ids of \<open>case.lt_archive\<close>, the third job, are
  empty; the id "1" of the job before it is not among them.
\<close>

theorem C1_counterexample:
  "map_sum id (\<lambda>st. (depid st, dep_log st))
     (fst (submit_jobs_run example_env (example_opts\<lparr>dry_run := True\<rparr>) 0)) =
   Inr ([(''case.run'', Some ''0''), (''case.st_archive'', Some ''1''),
         (''case.lt_archive'', Some ''2'')],
        [(''case.run'', []), (''case.st_archive'', [''0'']), (''case.lt_archive'', [])])"
  by code_simp

theorem C1_single_round_witness:
  "''0'' \<in> set (snd (dep_log example_dry_state ! 1)) \<and>
   set (snd (dep_log example_dry_state ! 2)) = {}"
proof -
  let ?a = "example_opts\<lparr>dry_run := True\<rparr>"
  have jobs: "get_jobs example_env = [''case.run'', ''case.st_archive'', ''case.lt_archive'']"
    by (simp add: example_env_def)
  have dist: "''case.run'' \<noteq> ''case.st_archive''" "''case.run'' \<noteq> ''case.lt_archive''"
    "''case.st_archive'' \<noteq> ''case.lt_archive''" by simp_all
  have start: "start_job ?a = None" by (simp add: example_opts_def)
  have pre: "prereq_holds example_env ?a ''case.run'' = Inr True"
    "prereq_holds example_env ?a ''case.st_archive'' = Inr True"
    "prereq_holds example_env ?a ''case.lt_archive'' = Inr True" by code_simp+
  have nc: "batchtype example_env \<noteq> Some ''cobalt''" by (simp add: example_env_def)
  have single: "\<not> resubmit_immediate ?a" by (simp add: example_opts_def)
  have decl: "''case.run'' \<in> set (declared_deps (get_value example_env ''dependency''
      (Some ''case.st_archive'')))" by code_simp
  note t = C1_single_round_dependencies [OF jobs dist start pre nc single decl example_dry_run]
  have m: "map_of (depid example_dry_state) ''case.run'' = Some (Some ''0'')"
    by (simp add: example_dry_state_def)
  have u: "user_prereq ?a = None" by (simp add: example_opts_def)
  have d: "declared_deps (get_value example_env ''dependency'' (Some ''case.lt_archive'')) = []"
    by code_simp
  from t m have 1: "''0'' \<in> set (snd (dep_log example_dry_state ! 1))" by blast
  from t have "set (snd (dep_log example_dry_state ! 2)) =
       set_option (user_prereq ?a) \<union>
       {i. \<exists>d \<in> set (declared_deps (get_value example_env ''dependency''
                (Some ''case.lt_archive''))) \<inter> {''case.run'', ''case.st_archive''}.
             map_of (depid example_dry_state) d = Some (Some i)}" by blast
  then have 2: "set (snd (dep_log example_dry_state ! 2)) = {}"
    unfolding u d by simp
  from 1 2 show ?thesis by blast
qed

lemma batch_single:
  assumes "get_value e ''BATCH_SYSTEM'' None \<noteq> None"
    and "get_value e ''BATCH_SYSTEM'' None \<noteq> Some ''none''" and "\<not> no_batch a"
  shows "submit_single_job e a job dep_jobs =
     (case submit_command e a job dep_jobs of
        Inl err \<Rightarrow> Inl err
      | Inr submitcmd \<Rightarrow>
          if dry_run a then Inr (Some submitcmd)
          else (case run_cmd_no_fail e submitcmd of
                  Inl err \<Rightarrow> Inl err
                | Inr output \<Rightarrow> get_job_id e output))"
proof -
  from assms(1) obtain bs where bs: "get_value e ''BATCH_SYSTEM'' None = Some bs" by blast
  with assms(2) have "bs \<noteq> ''none''" by simp
  with bs assms(3) show ?thesis by (simp add: submit_single_job_def)
qed

lemma submit_command_args_error:
  "get_submit_args e job = Inl err \<Longrightarrow> submit_command e a job dep_jobs = Inl err"
  by (simp add: submit_command_def)

lemma submit_command_clause_error:
  "get_submit_args e job = Inr args \<Longrightarrow>
   dependency_clause e (allow_fail a) first_dep more_deps = Inl err \<Longrightarrow>
   submit_command e a job (first_dep # more_deps) = Inl err"
  by (simp add: submit_command_def Let_def)

lemma dependency_clause_fallback:
  "get_value e ''depend_allow_string'' None = None \<Longrightarrow>
   dependency_clause e True first_dep more_deps = dependency_clause e False first_dep more_deps"
  by (simp add: dependency_clause_def)

lemma dependency_clause_errors:
  assumes "dep_string = (case get_value e ''depend_allow_string'' None of
                           None \<Rightarrow> get_value e ''depend_string'' None
                         | Some d \<Rightarrow> Some d)"
    and "dep_string = None \<or> get_value e ''depend_separator'' None = None \<or>
         \<not> py_contains ''jobid'' (the dep_string)"
  shows "dependency_clause e True first_dep more_deps =
     Inl (Expect (if dep_string = None
                  then sq @ ''depend_string'' @ sq @ '' is not defined for this batch system''
                  else if get_value e ''depend_separator'' None = None
                  then ''depend_separator string not defined''
                  else ''depend_string is missing jobid for prerequisite jobs''))"
proof (cases dep_string)
  case None
  with assms(1) show ?thesis by (simp add: dependency_clause_def)
next
  case (Some dep_str)
  show ?thesis
  proof (cases "get_value e ''depend_separator'' None")
    case None
    with Some assms(1) show ?thesis by (simp add: dependency_clause_def)
  next
    case sep: (Some separator_string)
    with Some assms(2) have "\<not> py_contains ''jobid'' dep_str" by simp
    with Some sep assms(1) show ?thesis by (simp add: dependency_clause_def)
  qed
qed

lemma submit_command_allow_fail_fallback:
  assumes "get_value e ''depend_allow_string'' None = None" and "allow_fail a"
  shows "submit_command e a job dep_jobs = submit_command e (a\<lparr>allow_fail := False\<rparr>) job dep_jobs"
proof -
  have 1: "mail_user_args e (a\<lparr>allow_fail := False\<rparr>) = mail_user_args e a"
    by (simp add: mail_user_args_def)
  have 2: "mail_type_args e (a\<lparr>allow_fail := False\<rparr>) job = mail_type_args e a job"
    by (simp add: mail_type_args_def resolved_mail_type_def)
  have 3: "run_args_of (a\<lparr>allow_fail := False\<rparr>) = run_args_of a"
    by (simp add: run_args_of_def)
  have 4: "batch_args (a\<lparr>allow_fail := False\<rparr>) = batch_args a" by simp
  have 5: "allow_fail (a\<lparr>allow_fail := False\<rparr>) = False" by simp
  have 6: "allow_fail a = True" using assms(2) by simp
  show ?thesis
    unfolding submit_command_def 1 2 3 4 5 6 dependency_clause_fallback [OF assms(1)]
    by (rule refl)
qed

text \<open>
  C2, as amended. With a batch system, a non-empty list of dependency ids and allow-fail
  requested, a missing \<open>depend_allow_string\<close> is not fatal by itself:
  \<open>_submit_single_job\<close> falls back to \<open>depend_string\<close> and does what it does without
  allow-fail. The submission is a fatal failure when the template so chosen is missing
  (that is, when \<open>depend_string\<close> is missing too), when \<open>depend_separator\<close> is missing, or
  when the chosen template does not contain "jobid"; once the submit arguments are
  read, the error is the one of the first of these checks that fails.
\<close>

theorem C2_dependency_configuration:
  assumes batch: "get_value e ''BATCH_SYSTEM'' None \<noteq> None"
      "get_value e ''BATCH_SYSTEM'' None \<noteq> Some ''none''" "\<not> no_batch a"
    and deps: "dep_jobs \<noteq> []"
    and af: "allow_fail a"
    and ds: "dep_string = (case get_value e ''depend_allow_string'' None of
                             None \<Rightarrow> get_value e ''depend_string'' None
                           | Some d \<Rightarrow> Some d)"
  shows "(get_value e ''depend_allow_string'' None = None \<longrightarrow>
            submit_single_job e a job dep_jobs =
              submit_single_job e (a\<lparr>allow_fail := False\<rparr>) job dep_jobs) \<and>
         (dep_string = None \<or> get_value e ''depend_separator'' None = None \<or>
            \<not> py_contains ''jobid'' (the dep_string) \<longrightarrow>
            (\<exists>err. submit_single_job e a job dep_jobs = Inl err) \<and>
            (\<forall>args. get_submit_args e job = Inr args \<longrightarrow>
               submit_single_job e a job dep_jobs =
                 Inl (Expect (if dep_string = None
                      then sq @ ''depend_string'' @ sq @ '' is not defined for this batch system''
                      else if get_value e ''depend_separator'' None = None
                      then ''depend_separator string not defined''
                      else ''depend_string is missing jobid for prerequisite jobs''))))"
proof -
  from deps obtain first_dep more_deps where dj: "dep_jobs = first_dep # more_deps"
    by (cases dep_jobs) auto
  have batch': "get_value e ''BATCH_SYSTEM'' None \<noteq> None"
      "get_value e ''BATCH_SYSTEM'' None \<noteq> Some ''none''"
      "\<not> no_batch (a\<lparr>allow_fail := False\<rparr>)"
    using batch by simp_all
  have fb: "submit_single_job e a job dep_jobs =
      submit_single_job e (a\<lparr>allow_fail := False\<rparr>) job dep_jobs"
    if "get_value e ''depend_allow_string'' None = None"
  proof -
    have dr: "dry_run (a\<lparr>allow_fail := False\<rparr>) = dry_run a" by simp
    show ?thesis
      unfolding batch_single [OF batch] batch_single [OF batch']
        submit_command_allow_fail_fallback [OF that af] dr
      by (rule refl)
  qed
  have fatal: "submit_single_job e a job dep_jobs =
      Inl (Expect (if dep_string = None
                      then sq @ ''depend_string'' @ sq @ '' is not defined for this batch system''
                      else if get_value e ''depend_separator'' None = None
                      then ''depend_separator string not defined''
                      else ''depend_string is missing jobid for prerequisite jobs''))"
    if c: "dep_string = None \<or> get_value e ''depend_separator'' None = None \<or>
            \<not> py_contains ''jobid'' (the dep_string)"
      and args: "get_submit_args e job = Inr args" for args
  proof -
    from dependency_clause_errors [OF ds c] af
    have "dependency_clause e (allow_fail a) first_dep more_deps =
      Inl (Expect (if dep_string = None
                      then sq @ ''depend_string'' @ sq @ '' is not defined for this batch system''
                      else if get_value e ''depend_separator'' None = None
                      then ''depend_separator string not defined''
                      else ''depend_string is missing jobid for prerequisite jobs''))"
      by simp
    from submit_command_clause_error [OF args this]
    show ?thesis unfolding batch_single [OF batch] dj by simp
  qed
  have ex: "\<exists>err. submit_single_job e a job dep_jobs = Inl err"
    if c: "dep_string = None \<or> get_value e ''depend_separator'' None = None \<or>
            \<not> py_contains ''jobid'' (the dep_string)"
  proof (cases "get_submit_args e job")
    case (Inl err)
    from submit_command_args_error [OF this]
    show ?thesis unfolding batch_single [OF batch] by simp
  next
    case (Inr args)
    from fatal [OF c this] show ?thesis by blast
  qed
  from fb fatal ex show ?thesis by blast
qed

text \<open>
  The claim C2 as stated fails on the example configuration, which has no
  \<open>depend_allow_string\<close>: with allow-fail requested and two dependency ids the
  submission succeeds, with the clause built from \<open>depend_string\<close>.
\<close>

theorem C2_counterexample:
  "get_value example_env ''depend_allow_string'' None = None \<and>
   submit_single_job example_env (example_opts\<lparr>allow_fail := True\<rparr>)
     ''case.st_archive'' [''1001'', ''1002''] = Inr (Some ''1001'') \<and>
   submit_single_job example_env (example_opts\<lparr>allow_fail := True, dry_run := True\<rparr>)
     ''case.st_archive'' [''1001'', ''1002''] =
     Inr (Some ''sbatch --dependency=afterok:1001,1002 .case.st_archive --resubmit'')"
  by code_simp

lemma no_separator_value:
  "get_value example_env_no_separator ''depend_separator'' None = None"
  by (simp add: example_env_no_separator_def)

theorem C2_dependency_witness:
  "submit_single_job example_env (example_opts\<lparr>allow_fail := True\<rparr>)
     ''case.st_archive'' [''1001''] =
   submit_single_job example_env (example_opts\<lparr>allow_fail := True, allow_fail := False\<rparr>)
     ''case.st_archive'' [''1001''] \<and>
   submit_single_job example_env_no_separator (example_opts\<lparr>allow_fail := True\<rparr>)
     ''case.st_archive'' [''1001''] = Inl (Expect ''depend_separator string not defined'')"
proof -
  let ?a = "example_opts\<lparr>allow_fail := True\<rparr>"
  have b1: "get_value example_env ''BATCH_SYSTEM'' None \<noteq> None"
    "get_value example_env ''BATCH_SYSTEM'' None \<noteq> Some ''none''" by code_simp+
  have b2: "get_value example_env_no_separator ''BATCH_SYSTEM'' None \<noteq> None"
    "get_value example_env_no_separator ''BATCH_SYSTEM'' None \<noteq> Some ''none''" by code_simp+
  have nb: "\<not> no_batch ?a" by (simp add: example_opts_def)
  have dj: "[''1001''] \<noteq> ([] :: string list)" by simp
  have af: "allow_fail ?a" by simp
  have ds1: "Some ''--dependency=afterok:jobid'' =
      (case get_value example_env ''depend_allow_string'' None of
         None \<Rightarrow> get_value example_env ''depend_string'' None | Some d \<Rightarrow> Some d)"
    by code_simp
  have ds2: "Some ''--dependency=afterok:jobid'' =
      (case get_value example_env_no_separator ''depend_allow_string'' None of
         None \<Rightarrow> get_value example_env_no_separator ''depend_string'' None | Some d \<Rightarrow> Some d)"
    by code_simp
  have none: "get_value example_env ''depend_allow_string'' None = None" by code_simp
  have args: "get_submit_args example_env_no_separator ''case.st_archive'' = Inr '' ''"
    by (simp add: example_env_no_separator_def example_env_def)
  from C2_dependency_configuration [OF b1 nb dj af ds1, of "''case.st_archive''"] none
  have 1: "submit_single_job example_env ?a ''case.st_archive'' [''1001''] =
      submit_single_job example_env (?a\<lparr>allow_fail := False\<rparr>) ''case.st_archive'' [''1001'']"
    by blast
  from C2_dependency_configuration [OF b2 nb dj af ds2, of "''case.st_archive''"]
    no_separator_value args
  have 2: "submit_single_job example_env_no_separator ?a ''case.st_archive'' [''1001''] =
      Inl (Expect ''depend_separator string not defined'')"
    by simp
  from 1 2 show ?thesis by blast
qed

end
